theory Spec2Isabelle
  imports Complex_Main "HOL-Library.Code_Target_Nat"
begin

section \<open>Overview\<close>

text \<open>
  The repository is a payment back end for a cafe.  \<^verbatim>\<open>POST /api/create-khqr\<close> creates an
  order with a KHQR payment code and keeps it in an in-memory store;
  \<^verbatim>\<open>GET /api/check-payment/:orderId\<close> asks the Bakong settlement service whether the
  code of a stored order was paid and marks the order.  The sources hold three variants of
  this service, modelled side by side:
  \<^item> \<^verbatim>\<open>src/server.js\<close>: \<open>create_khqr\<close> and \<open>check_payment\<close>;
  \<^item> \<^verbatim>\<open>src/unnamed/part_002\<close>: the status check \<open>check_payment_002\<close>; its creation
    handler makes the tests of \<^verbatim>\<open>src/server.js\<close> and is not modelled a second time;
  \<^item> \<^verbatim>\<open>src/unnamed/part_003\<close>: \<open>create_khqr_003\<close> and \<open>check_payment_003\<close>.

  The two serverless handlers (\<^verbatim>\<open>src/unnamed/part_000\<close>, \<^verbatim>\<open>src/unnamed/part_001\<close>) keep
  no orders and are not modelled.

  A handler is a function of the store and of what its collaborators do (the codec, the
  rasterizer, the settlement service, the clock and the random numbers); it returns the
  response, the store it leaves and the calls it made.  Every exception thrown inside a
  handler reaches its \<^verbatim>\<open>catch\<close> block, which answers 500.  Requests are served one
  after the other.
\<close>

section \<open>JavaScript numbers\<close>

text \<open>
  A JavaScript number is an IEEE 754 binary64 value.  A finite one is kept as the
  rational it denotes; the two zeros are identified (every operation used by the
  handlers treats them alike).  Arithmetic rounds to the nearest binary64 value, ties to
  even, so that \<^verbatim>\<open>5.0001 - 5\<close> is the number the runtime computes and not the
  real \<^verbatim>\<open>0.0001\<close>.
\<close>

datatype jsnum = NaN | PInf | NInf | Fin rat

text \<open>The number of binary digits of a positive integer.\<close>

fun bitlen :: "int \<Rightarrow> int" where
  "bitlen n = (if n \<le> 0 then 0 else 1 + bitlen (n div 2))"

declare bitlen.simps [simp del]

definition pow2 :: "int \<Rightarrow> rat" where
  "pow2 k = (if 0 \<le> k then 2 ^ nat k else 1 / 2 ^ nat (- k))"

text \<open>The exponent \<^verbatim>\<open>k\<close> with \<^verbatim>\<open>2^k \<le> a < 2^(k+1)\<close>, for a positive \<^verbatim>\<open>a\<close>.\<close>

definition ilog2 :: "rat \<Rightarrow> int" where
  "ilog2 a = (case quotient_of a of (p, q) \<Rightarrow>
     (let k = bitlen p - bitlen q
      in if pow2 k \<le> a then k else k - 1))"

text \<open>Rounding a rational to the nearest integer, ties to the even one.\<close>

definition rne :: "rat \<Rightarrow> int" where
  "rne x = (let f = \<lfloor>x\<rfloor>; r = x - of_int f
            in if r < 1 / 2 then f else if 1 / 2 < r then f + 1
               else if even f then f else f + 1)"

text \<open>
  Rounding a rational to binary64: 53 significant bits, least exponent \<^verbatim>\<open>-1074\<close>
  (subnormals).  The largest finite value is \<^verbatim>\<open>(2^53 - 1) * 2^971\<close>; a result beyond
  it is an infinity.
\<close>

definition fl :: "rat \<Rightarrow> jsnum" where
  "fl x = (if x = 0 then Fin 0
           else let a = \<bar>x\<bar>;
                    e = max (ilog2 a - 52) (- 1074);
                    m = rne (a / pow2 e)
                in if 971 < e \<or> (e = 971 \<and> m = 2 ^ 53)
                   then (if 0 < x then PInf else NInf)
                   else Fin ((if 0 < x then 1 else - 1) * of_int m * pow2 e))"

text \<open>The operator \<^verbatim>\<open>a - b\<close> on numbers.\<close>

fun js_sub :: "jsnum \<Rightarrow> jsnum \<Rightarrow> jsnum" where
  "js_sub (Fin a) (Fin b) = fl (a - b)"
| "js_sub NaN _ = NaN"
| "js_sub _ NaN = NaN"
| "js_sub PInf PInf = NaN"
| "js_sub NInf NInf = NaN"
| "js_sub PInf _ = PInf"
| "js_sub NInf _ = NInf"
| "js_sub (Fin a) PInf = NInf"
| "js_sub (Fin a) NInf = PInf"

text \<open>The operator \<^verbatim>\<open>a * b\<close> on numbers.\<close>

fun js_mul :: "jsnum \<Rightarrow> jsnum \<Rightarrow> jsnum" where
  "js_mul (Fin a) (Fin b) = fl (a * b)"
| "js_mul NaN _ = NaN"
| "js_mul _ NaN = NaN"
| "js_mul PInf (Fin b) = (if b = 0 then NaN else if 0 < b then PInf else NInf)"
| "js_mul NInf (Fin b) = (if b = 0 then NaN else if 0 < b then NInf else PInf)"
| "js_mul (Fin a) PInf = (if a = 0 then NaN else if 0 < a then PInf else NInf)"
| "js_mul (Fin a) NInf = (if a = 0 then NaN else if 0 < a then NInf else PInf)"
| "js_mul PInf PInf = PInf"
| "js_mul NInf NInf = PInf"
| "js_mul PInf NInf = NInf"
| "js_mul NInf PInf = NInf"

text \<open>\<^verbatim>\<open>Math.abs\<close>, \<^verbatim>\<open>Math.floor\<close> and \<^verbatim>\<open>Math.round\<close> (halves go up).\<close>

fun Math_abs :: "jsnum \<Rightarrow> jsnum" where
  "Math_abs (Fin a) = Fin \<bar>a\<bar>"
| "Math_abs NaN = NaN"
| "Math_abs PInf = PInf"
| "Math_abs NInf = PInf"

fun Math_floor :: "jsnum \<Rightarrow> jsnum" where
  "Math_floor (Fin a) = Fin (of_int \<lfloor>a\<rfloor>)"
| "Math_floor n = n"

fun Math_round :: "jsnum \<Rightarrow> jsnum" where
  "Math_round (Fin a) = Fin (of_int \<lfloor>a + 1 / 2\<rfloor>)"
| "Math_round n = n"

text \<open>The comparisons \<^verbatim>\<open>a < b\<close> and \<^verbatim>\<open>a <= b\<close>: false when either side is NaN.\<close>

fun js_lt :: "jsnum \<Rightarrow> jsnum \<Rightarrow> bool" where
  "js_lt (Fin a) (Fin b) = (a < b)"
| "js_lt NaN _ = False"
| "js_lt _ NaN = False"
| "js_lt _ NInf = False"
| "js_lt PInf _ = False"
| "js_lt NInf _ = True"
| "js_lt (Fin a) PInf = True"

fun js_le :: "jsnum \<Rightarrow> jsnum \<Rightarrow> bool" where
  "js_le (Fin a) (Fin b) = (a \<le> b)"
| "js_le NaN _ = False"
| "js_le _ NaN = False"
| "js_le NInf _ = True"
| "js_le _ PInf = True"
| "js_le PInf _ = False"
| "js_le (Fin a) NInf = False"

text \<open>A number literal of the source or of a JSON text: the nearest binary64 value.\<close>

definition lit :: "rat \<Rightarrow> jsnum" where
  "lit q = fl q"

section \<open>JavaScript values\<close>

text \<open>
  The values that travel in request bodies, in the results of the external codec and in
  the responses of the settlement service.  Strings are byte strings: an ASCII character is
  its byte, and a character beyond ASCII is a sequence of bytes with the top bit set.
\<close>

datatype jsval =
    Undefined
  | Null
  | Bool bool
  | Num jsnum
  | Str string
  | Arr "jsval list"
  | Obj "(string \<times> jsval) list"

text \<open>What \<^verbatim>\<open>!v\<close>, \<^verbatim>\<open>v || w\<close> and \<^verbatim>\<open>if (v)\<close> test.\<close>

fun truthy :: "jsval \<Rightarrow> bool" where
  "truthy Undefined = False"
| "truthy Null = False"
| "truthy (Bool b) = b"
| "truthy (Num n) = (n \<noteq> NaN \<and> n \<noteq> Fin 0)"
| "truthy (Str s) = (s \<noteq> [])"
| "truthy (Arr xs) = True"
| "truthy (Obj kvs) = True"

definition js_or :: "jsval \<Rightarrow> jsval \<Rightarrow> jsval" where
  "js_or v w = (if truthy v then v else w)"

text \<open>
  \<^verbatim>\<open>Number(v)\<close>.  The conversion of strings, arrays and objects is the runtime's
  (\<^verbatim>\<open>StringToNumber\<close> after \<^verbatim>\<open>ToPrimitive\<close>) and is the parameter \<open>conv\<close>.
\<close>

fun Number :: "(jsval \<Rightarrow> jsnum) \<Rightarrow> jsval \<Rightarrow> jsnum" where
  "Number conv Undefined = NaN"
| "Number conv Null = Fin 0"
| "Number conv (Bool b) = Fin (if b then 1 else 0)"
| "Number conv (Num n) = n"
| "Number conv v = conv v"

text \<open>
  A property read \<^verbatim>\<open>v.k\<close> on a value that is neither null nor undefined (where the
  source would throw, the callers test \<open>nullish\<close> first).  Of a repeated key of a
  parsed JSON object the last one counts.  It is used for the names
  \<^verbatim>\<open>status\<close>, \<^verbatim>\<open>code\<close>, \<^verbatim>\<open>data\<close>, \<^verbatim>\<open>qr\<close>, \<^verbatim>\<open>md5\<close>, \<^verbatim>\<open>responseCode\<close>, \<^verbatim>\<open>amount\<close>
  and \<^verbatim>\<open>currency\<close> only, which no primitive or array carries.
\<close>

fun get_prop :: "jsval \<Rightarrow> string \<Rightarrow> jsval" where
  "get_prop (Obj kvs) k = (case map_of (rev kvs) k of Some v \<Rightarrow> v | None \<Rightarrow> Undefined)"
| "get_prop v k = Undefined"

definition nullish :: "jsval \<Rightarrow> bool" where
  "nullish v = (v = Undefined \<or> v = Null)"

text \<open>Optional chaining \<^verbatim>\<open>v?.k\<close>.\<close>

definition opt_get :: "jsval \<Rightarrow> string \<Rightarrow> jsval" where
  "opt_get v k = (if nullish v then Undefined else get_prop v k)"

text \<open>
  Strict equality \<^verbatim>\<open>v === w\<close>.  Arrays and objects are compared by identity; the
  handlers only compare freshly received values with literals and stored strings, so two
  of them are never the same object.
\<close>

fun strict_eq :: "jsval \<Rightarrow> jsval \<Rightarrow> bool" where
  "strict_eq Undefined Undefined = True"
| "strict_eq Null Null = True"
| "strict_eq (Bool a) (Bool b) = (a = b)"
| "strict_eq (Num a) (Num b) = (a \<noteq> NaN \<and> a = b)"
| "strict_eq (Str a) (Str b) = (a = b)"
| "strict_eq v w = False"

subsection \<open>Strings\<close>

text \<open>
  \<^verbatim>\<open>s.toUpperCase()\<close>.  In a string of ASCII characters the letters a to z become A to
  Z and every other character stays.  The result for a string that has a character beyond
  ASCII is given by the case mapping of the runtime (it maps the long s to S and the sharp
  s to SS, for example) and is the parameter \<open>unicode\<close>.
\<close>

definition toUpperCase_char :: "char \<Rightarrow> char" where
  "toUpperCase_char c =
     (case map_of (zip ''abcdefghijklmnopqrstuvwxyz'' ''ABCDEFGHIJKLMNOPQRSTUVWXYZ'') c of
        Some u \<Rightarrow> u
      | None \<Rightarrow> c)"

definition toUpperCase :: "(string \<Rightarrow> string) \<Rightarrow> string \<Rightarrow> string" where
  "toUpperCase unicode s =
     (if list_all (\<lambda>c. \<not> digit7 c) s then map toUpperCase_char s else unicode s)"

definition str_includes :: "string \<Rightarrow> char \<Rightarrow> bool" where
  "str_includes s c = (c \<in> set s)"

definition padStart :: "nat \<Rightarrow> char \<Rightarrow> string \<Rightarrow> string" where
  "padStart n c s = replicate (n - length s) c @ s"

text \<open>The decimal digits of a natural number, and of an integer.\<close>

fun digits :: "nat \<Rightarrow> string" where
  "digits n = (if n < 10 then [''0123456789'' ! n]
               else digits (n div 10) @ [''0123456789'' ! (n mod 10)])"

declare digits.simps [simp del]

definition int_toString :: "int \<Rightarrow> string" where
  "int_toString i = (if i < 0 then CHR ''-'' # digits (nat (- i)) else digits (nat i))"

text \<open>
  \<^verbatim>\<open>n.toString()\<close> for the numbers the handlers print: the result of
  \<^verbatim>\<open>Math.floor\<close>, an integer below \<^verbatim>\<open>1e21\<close>, or a non-finite value.
\<close>

fun toString_num :: "jsnum \<Rightarrow> string" where
  "toString_num NaN = ''NaN''"
| "toString_num PInf = ''Infinity''"
| "toString_num NInf = ''-Infinity''"
| "toString_num (Fin a) = int_toString \<lfloor>a\<rfloor>"

section \<open>Configuration, orders and the in-memory store\<close>

text \<open>The constants read from the environment at start-up.\<close>

record config =
  BAKONG_BASE_URL :: string
  BAKONG_TOKEN :: string
  BAKONG_ACCOUNT_ID :: string
  MERCHANT_NAME :: string
  MERCHANT_CITY :: string
  DEFAULT_CURRENCY :: string

text \<open>\<^verbatim>\<open>process.env.X || d\<close>: an unset or empty variable gives the fallback.\<close>

definition env_or :: "(string \<rightharpoonup> string) \<Rightarrow> string \<Rightarrow> string \<Rightarrow> string" where
  "env_or env x d = (case env x of None \<Rightarrow> d | Some v \<Rightarrow> if v = [] then d else v)"

definition load_config :: "(string \<Rightarrow> string) \<Rightarrow> (string \<rightharpoonup> string) \<Rightarrow> config" where
  "load_config unicode env =
     \<lparr> BAKONG_BASE_URL = env_or env ''BAKONG_BASE_URL'' ''https://api-bakong.nbc.gov.kh'',
       BAKONG_TOKEN = env_or env ''BAKONG_TOKEN'' [],
       BAKONG_ACCOUNT_ID = env_or env ''BAKONG_ACCOUNT_ID'' [],
       MERCHANT_NAME = env_or env ''MERCHANT_NAME'' ''CVG Cafe'',
       MERCHANT_CITY = env_or env ''MERCHANT_CITY'' ''Phnom Penh'',
       DEFAULT_CURRENCY = toUpperCase unicode (env_or env ''CURRENCY'' ''USD'') \<rparr>"

datatype order_status = PENDING | PAID

fun status_str :: "order_status \<Rightarrow> string" where
  "status_str PENDING = ''PENDING''"
| "status_str PAID = ''PAID''"

text \<open>
  The object stored per order.  \<open>qrString\<close> and \<open>md5\<close> are what the codec returned;
  a field that a variant of the service does not store is \<open>Undefined\<close>.
\<close>

record order =
  orderId :: string
  amount :: jsnum
  currency :: string
  qrString :: jsval
  md5 :: jsval
  status :: order_status
  createdAt :: jsval

text \<open>
  \<^verbatim>\<open>const ORDERS = {}\<close>: the own properties are a map from order id to order.  The
  object is a plain one, so a read \<^verbatim>\<open>ORDERS[k]\<close> of a key it does not own goes on to
  \<^verbatim>\<open>Object.prototype\<close> and finds the members every object inherits.
\<close>

type_synonym ledger = "string \<rightharpoonup> order"

definition prototype_keys :: "string list" where
  "prototype_keys =
     [''constructor'', ''__proto__'', ''hasOwnProperty'', ''isPrototypeOf'',
      ''propertyIsEnumerable'', ''toLocaleString'', ''toString'', ''valueOf'',
      ''__defineGetter__'', ''__defineSetter__'', ''__lookupGetter__'', ''__lookupSetter__'']"

datatype order_ref = NoOrder | OwnOrder order | Builtin

definition lookup_order :: "ledger \<Rightarrow> string \<Rightarrow> order_ref" where
  "lookup_order ORDERS k =
     (case ORDERS k of
        Some ord \<Rightarrow> OwnOrder ord
      | None \<Rightarrow> if k \<in> set prototype_keys then Builtin else NoOrder)"

text \<open>The fields of what a lookup found; an inherited member has none of them.\<close>

fun ref_status :: "order_ref \<Rightarrow> jsval" where
  "ref_status (OwnOrder ord) = Str (status_str (status ord))"
| "ref_status r = Undefined"

fun ref_amount :: "order_ref \<Rightarrow> jsval" where
  "ref_amount (OwnOrder ord) = Num (amount ord)"
| "ref_amount r = Undefined"

fun ref_currency :: "order_ref \<Rightarrow> jsval" where
  "ref_currency (OwnOrder ord) = Str (currency ord)"
| "ref_currency r = Undefined"

fun ref_md5 :: "order_ref \<Rightarrow> jsval" where
  "ref_md5 (OwnOrder ord) = md5 ord"
| "ref_md5 r = Undefined"

text \<open>\<^verbatim>\<open>order.status = "PAID"\<close> on the order stored under \<open>k\<close>.\<close>

definition mark_paid :: "ledger \<Rightarrow> string \<Rightarrow> ledger" where
  "mark_paid ORDERS k =
     (case ORDERS k of Some ord \<Rightarrow> ORDERS(k \<mapsto> ord\<lparr>status := PAID\<rparr>) | None \<Rightarrow> ORDERS)"

section \<open>Responses and collaborators\<close>

text \<open>\<^verbatim>\<open>res.status(c).json(obj)\<close>; \<^verbatim>\<open>res.json(obj)\<close> answers 200.\<close>

record response =
  http_status :: nat
  body :: "(string \<times> jsval) list"

definition json :: "nat \<Rightarrow> (string \<times> jsval) list \<Rightarrow> response" where
  "json c obj = \<lparr> http_status = c, body = obj \<rparr>"

text \<open>A call of a collaborator returns a value or throws (a promise resolves or rejects).\<close>

datatype 'a outcome = Throws | Returns 'a

datatype khqr_currency = khr | usd

text \<open>The object \<open>optionalData\<close>, and the arguments of \<^verbatim>\<open>new IndividualInfo(...)\<close>.\<close>

record optional_data =
  od_currency :: khqr_currency
  od_amount :: jsnum
  od_storeLabel :: string
  od_merchantCategoryCode :: string
  od_billNumber :: string
  od_purposeOfTransaction :: string
  od_expirationTimestamp :: int

datatype ctor_arg = AStr string | ACur khqr_currency | AOpt optional_data

text \<open>The request sent with \<^verbatim>\<open>axios.post\<close>.\<close>

record http_post =
  url :: string
  post_md5 :: jsval
  authorization :: string

section \<open>Order ids\<close>

text \<open>
  What \<^verbatim>\<open>new Date()\<close> read, and the other inputs a creation request takes from the
  runtime: \<^verbatim>\<open>Math.random()\<close>, \<^verbatim>\<open>Date.now()\<close>, the time stamp of the storing
  instant, and the case mapping of strings that have a character beyond ASCII.
\<close>

record clock_reading =
  getFullYear :: nat
  getMonth :: nat
  getDate :: nat
  getHours :: nat
  getMinutes :: nat
  getSeconds :: nat

record world =
  now :: clock_reading
  Math_random :: rat
  Date_now :: int
  toISOString :: string
  unicode_toUpperCase :: "string \<Rightarrow> string"

definition generateOrderId :: "world \<Rightarrow> string" where
  "generateOrderId w =
     (let y = digits (getFullYear (now w));
          m = padStart 2 CHR ''0'' (digits (getMonth (now w) + 1));
          d = padStart 2 CHR ''0'' (digits (getDate (now w)));
          hh = padStart 2 CHR ''0'' (digits (getHours (now w)));
          mm = padStart 2 CHR ''0'' (digits (getMinutes (now w)));
          ss = padStart 2 CHR ''0'' (digits (getSeconds (now w)));
          rand = padStart 3 CHR ''0''
                   (toString_num (Math_floor (js_mul (Fin (Math_random w)) (Fin 1000))))
      in ''CAFE-'' @ y @ m @ d @ hh @ mm @ ss @ ''-'' @ rand)"

section \<open>The service of \<^verbatim>\<open>server.js\<close>\<close>

text \<open>
  The fields \<^verbatim>\<open>amount\<close> and \<^verbatim>\<open>currency\<close> of the parsed request body, \<open>Undefined\<close>
  when the body has no such field.
\<close>

record create_request =
  req_amount :: jsval
  req_currency :: jsval

text \<open>
  The result of a handler: the response, the store it leaves, and the requests it made to
  the codec (of type \<open>'q\<close>) or to the settlement service.
\<close>

record 'q create_result =
  cr_response :: response
  cr_ORDERS :: ledger
  cr_encoded :: "'q list"

record check_result =
  ck_response :: response
  ck_ORDERS :: ledger
  ck_posts :: "http_post list"
  ck_builtin_write :: bool

subsection \<open>\<^verbatim>\<open>POST /api/create-khqr\<close>\<close>

text \<open>
  The \<^verbatim>\<open>catch\<close> block answers every exception thrown inside the handler: a
  \<^verbatim>\<open>toUpperCase\<close> called on a currency that is not a string, a throwing codec, a
  read of \<^verbatim>\<open>code\<close> on a missing \<^verbatim>\<open>status\<close>, a rejecting rasterizer.
\<close>

definition create_khqr ::
  "(jsval \<Rightarrow> jsnum) \<Rightarrow> (ctor_arg list \<Rightarrow> jsval outcome) \<Rightarrow> (jsval \<Rightarrow> string outcome) \<Rightarrow>
   config \<Rightarrow> world \<Rightarrow> ledger \<Rightarrow> create_request \<Rightarrow> (ctor_arg list) create_result" where
  "create_khqr conv generateIndividual toDataURL cfg w ORDERS req =
     (let caught = (\<lambda>calls.
            \<lparr> cr_response = json 500 [(''ok'', Bool False),
                                       (''error'', Str ''Server error while creating KHQR'')],
              cr_ORDERS = ORDERS, cr_encoded = calls \<rparr>);
          failed = (\<lambda>calls.
            \<lparr> cr_response = json 500 [(''ok'', Bool False),
                                       (''error'', Str ''Failed to generate KHQR'')],
              cr_ORDERS = ORDERS, cr_encoded = calls \<rparr>);
          amount = Number conv (js_or (req_amount req) (Num (Fin 0)))
      in
      if \<not> truthy (Num amount) \<or> js_le amount (Fin 0) then
        \<lparr> cr_response = json 400 [(''ok'', Bool False),
                                   (''error'', Str ''Invalid amount (must be > 0)'')],
          cr_ORDERS = ORDERS, cr_encoded = [] \<rparr>
      else if BAKONG_ACCOUNT_ID cfg = [] \<or> \<not> str_includes (BAKONG_ACCOUNT_ID cfg) CHR ''@'' then
        \<lparr> cr_response = json 500 [(''ok'', Bool False),
           (''error'', Str ''BAKONG_ACCOUNT_ID is not set or invalid. Example: yourid@aclb in .env'')],
          cr_ORDERS = ORDERS, cr_encoded = [] \<rparr>
      else
        (case js_or (req_currency req) (Str (DEFAULT_CURRENCY cfg)) of
           Str c \<Rightarrow>
             (let currencyCode = toUpperCase (unicode_toUpperCase w) c;
                  khqrCurrency = (if currencyCode = ''KHR'' then khr else usd);
                  orderId = generateOrderId w;
                  expirationTimestamp = Date_now w + 10 * 60 * 1000;
                  optionalData =
                    \<lparr> od_currency = khqrCurrency,
                      od_amount = amount,
                      od_storeLabel = MERCHANT_NAME cfg,
                      od_merchantCategoryCode = ''5999'',
                      od_billNumber = orderId,
                      od_purposeOfTransaction = ''Cafe order'',
                      od_expirationTimestamp = expirationTimestamp \<rparr>;
                  individualInfo =
                    [AStr (BAKONG_ACCOUNT_ID cfg), ACur khqrCurrency, AStr (MERCHANT_NAME cfg),
                     AStr (MERCHANT_CITY cfg), AOpt optionalData]
              in
              case generateIndividual individualInfo of
                Throws \<Rightarrow> caught [individualInfo]
              | Returns result \<Rightarrow>
                  if \<not> truthy result then failed [individualInfo]
                  else if nullish (get_prop result ''status'') then caught [individualInfo]
                  else if \<not> strict_eq (get_prop (get_prop result ''status'') ''code'') (Num (Fin 0))
                          \<or> \<not> truthy (get_prop result ''data'')
                  then failed [individualInfo]
                  else
                    (let qrString = get_prop (get_prop result ''data'') ''qr'';
                         md5 = get_prop (get_prop result ''data'') ''md5''
                     in
                     case toDataURL qrString of
                       Throws \<Rightarrow> caught [individualInfo]
                     | Returns qrImage \<Rightarrow>
                         \<lparr> cr_response = json 200
                             [(''ok'', Bool True), (''orderId'', Str orderId),
                              (''amount'', Num amount), (''currency'', Str currencyCode),
                              (''qrString'', qrString), (''md5'', md5),
                              (''qrImage'', Str qrImage)],
                           cr_ORDERS = ORDERS(orderId \<mapsto>
                             \<lparr> orderId = orderId, amount = amount, currency = currencyCode,
                               qrString = qrString, md5 = md5, status = PENDING,
                               createdAt = Str (toISOString w) \<rparr>),
                           cr_encoded = [individualInfo] \<rparr>))
         | _ \<Rightarrow> caught []))"

subsection \<open>\<^verbatim>\<open>GET /api/check-payment/:orderId\<close>\<close>

text \<open>The request to the settlement service for what the lookup found.\<close>

definition check_request :: "config \<Rightarrow> order_ref \<Rightarrow> http_post" where
  "check_request cfg ord =
     \<lparr> url = BAKONG_BASE_URL cfg @ ''/v1/check_transaction_by_md5'',
       post_md5 = ref_md5 ord,
       authorization = ''Bearer '' @ BAKONG_TOKEN cfg \<rparr>"

text \<open>\<^verbatim>\<open>data && data.responseCode === 0 && data.data\<close>\<close>

definition matched :: "jsval \<Rightarrow> bool" where
  "matched data =
     (truthy data \<and> strict_eq (get_prop data ''responseCode'') (Num (Fin 0))
      \<and> truthy (get_prop data ''data''))"

text \<open>The comparison of the settlement record with what the lookup found.\<close>

definition same_payment :: "(jsval \<Rightarrow> jsnum) \<Rightarrow> jsval \<Rightarrow> order_ref \<Rightarrow> bool" where
  "same_payment conv data ord =
     (let paidAmount = Number conv (get_prop (get_prop data ''data'') ''amount'');
          paidCurrency = get_prop (get_prop data ''data'') ''currency''
      in strict_eq paidCurrency (ref_currency ord)
         \<and> js_lt (Math_abs (js_sub paidAmount (Number conv (ref_amount ord)))) (lit (1 / 10000)))"

text \<open>
  \<open>oid\<close> is \<^verbatim>\<open>req.params.orderId\<close>.
  \<open>ck_builtin_write\<close> reports an assignment \<^verbatim>\<open>order.status = "PAID"\<close> whose target is
  an inherited member of \<^verbatim>\<open>Object.prototype\<close> and not an order of the store.
\<close>

definition check_payment ::
  "(jsval \<Rightarrow> jsnum) \<Rightarrow> (http_post \<Rightarrow> jsval outcome) \<Rightarrow> config \<Rightarrow> ledger \<Rightarrow> string \<Rightarrow>
   check_result" where
  "check_payment conv axios_post cfg ORDERS oid =
     (let ord = lookup_order ORDERS oid in
      if ord = NoOrder then
        \<lparr> ck_response = json 404 [(''ok'', Bool False), (''error'', Str ''Order not found'')],
          ck_ORDERS = ORDERS, ck_posts = [], ck_builtin_write = False \<rparr>
      else if strict_eq (ref_status ord) (Str ''PAID'') then
        \<lparr> ck_response = json 200 [(''ok'', Bool True), (''status'', Str ''PAID''),
                                   (''amount'', ref_amount ord), (''currency'', ref_currency ord)],
          ck_ORDERS = ORDERS, ck_posts = [], ck_builtin_write = False \<rparr>
      else if BAKONG_TOKEN cfg = [] \<or> BAKONG_TOKEN cfg = ''YOUR_BAKONG_API_TOKEN_HERE'' then
        \<lparr> ck_response = json 200 [(''ok'', Bool True), (''status'', Str ''PENDING''),
            (''note'', Str ''BAKONG_TOKEN not set. Payment check is not active yet.'')],
          ck_ORDERS = ORDERS, ck_posts = [], ck_builtin_write = False \<rparr>
      else
        (case axios_post (check_request cfg ord) of
           Throws \<Rightarrow>
             \<lparr> ck_response = json 500 [(''ok'', Bool False),
                 (''error'', Str ''Server error while checking payment'')],
               ck_ORDERS = ORDERS, ck_posts = [check_request cfg ord],
               ck_builtin_write = False \<rparr>
         | Returns data \<Rightarrow>
             (let paid = (matched data \<and> same_payment conv data ord);
                  ORDERS' = (if paid then mark_paid ORDERS oid else ORDERS);
                  ord' = lookup_order ORDERS' oid
              in \<lparr> ck_response = json 200 [(''ok'', Bool True), (''status'', ref_status ord'),
                     (''amount'', ref_amount ord'), (''currency'', ref_currency ord')],
                   ck_ORDERS = ORDERS', ck_posts = [check_request cfg ord],
                   ck_builtin_write = (paid \<and> ord = Builtin) \<rparr>)))"

section \<open>The variant of \<^verbatim>\<open>src/unnamed/part_002\<close>\<close>

text \<open>
  The same service with another status check: a matched settlement record marks the order
  paid, and the record's amount and currency are not looked at (the source says
  \<^verbatim>\<open>// you can add extra validation here (amount, currency)\<close>).
\<close>

definition check_payment_002 ::
  "(http_post \<Rightarrow> jsval outcome) \<Rightarrow> config \<Rightarrow> ledger \<Rightarrow> string \<Rightarrow> check_result" where
  "check_payment_002 axios_post cfg ORDERS oid =
     (let ord = lookup_order ORDERS oid in
      if ord = NoOrder then
        \<lparr> ck_response = json 404 [(''ok'', Bool False), (''error'', Str ''Order not found'')],
          ck_ORDERS = ORDERS, ck_posts = [], ck_builtin_write = False \<rparr>
      else if strict_eq (ref_status ord) (Str ''PAID'') then
        \<lparr> ck_response = json 200 [(''ok'', Bool True), (''status'', Str ''PAID''),
                                   (''amount'', ref_amount ord), (''currency'', ref_currency ord)],
          ck_ORDERS = ORDERS, ck_posts = [], ck_builtin_write = False \<rparr>
      else if BAKONG_TOKEN cfg = [] \<or> BAKONG_TOKEN cfg = ''YOUR_BAKONG_API_TOKEN_HERE'' then
        \<lparr> ck_response = json 200 [(''ok'', Bool True), (''status'', Str ''PENDING''),
            (''note'', Str ''BAKONG_TOKEN not set; live payment check disabled'')],
          ck_ORDERS = ORDERS, ck_posts = [], ck_builtin_write = False \<rparr>
      else
        (case axios_post (check_request cfg ord) of
           Throws \<Rightarrow>
             \<lparr> ck_response = json 500 [(''ok'', Bool False), (''error'', Str ''Server error'')],
               ck_ORDERS = ORDERS, ck_posts = [check_request cfg ord],
               ck_builtin_write = False \<rparr>
         | Returns data \<Rightarrow>
             (let paid = matched data;
                  ORDERS' = (if paid then mark_paid ORDERS oid else ORDERS);
                  ord' = lookup_order ORDERS' oid
              in \<lparr> ck_response = json 200 [(''ok'', Bool True),
                     (''status'', if paid \<and> ord = Builtin then Str ''PAID'' else ref_status ord'),
                     (''amount'', ref_amount ord'), (''currency'', ref_currency ord')],
                   ck_ORDERS = ORDERS', ck_posts = [check_request cfg ord],
                   ck_builtin_write = (paid \<and> ord = Builtin) \<rparr>)))"

section \<open>The variant of \<^verbatim>\<open>src/unnamed/part_003\<close>\<close>

text \<open>
  The service built on the other codec library.  It reads the environment without
  fallbacks for the settlement service and the account, tests the raw \<^verbatim>\<open>amount\<close> of
  the body, accepts the currencies USD and KHR only, and rounds a KHR amount.
\<close>

definition load_config_003 :: "(string \<Rightarrow> string) \<Rightarrow> (string \<rightharpoonup> string) \<Rightarrow> config" where
  "load_config_003 unicode env =
     \<lparr> BAKONG_BASE_URL = (case env ''BAKONG_BASE_URL'' of None \<Rightarrow> ''undefined'' | Some v \<Rightarrow> v),
       BAKONG_TOKEN = (case env ''BAKONG_TOKEN'' of None \<Rightarrow> [] | Some v \<Rightarrow> v),
       BAKONG_ACCOUNT_ID = (case env ''BAKONG_ACCOUNT_ID'' of None \<Rightarrow> [] | Some v \<Rightarrow> v),
       MERCHANT_NAME = env_or env ''MERCHANT_NAME'' ''My Cafe'',
       MERCHANT_CITY = env_or env ''MERCHANT_CITY'' ''Phnom Penh'',
       DEFAULT_CURRENCY = toUpperCase unicode (env_or env ''CURRENCY'' ''USD'') \<rparr>"

datatype khqr_tag = INDIVIDUAL | MERCHANT

datatype khqr_country = KH

text \<open>The argument of \<^verbatim>\<open>KHQR.generate\<close>.\<close>

record khqr_params =
  kp_tag :: khqr_tag
  kp_accountID :: string
  kp_merchantName :: string
  kp_merchantCity :: string
  kp_countryCode :: khqr_country
  kp_currency :: khqr_currency
  kp_amount :: jsnum
  kp_merchantCategoryCode :: string
  kp_expirationTimestamp :: int
  kp_billNumber :: string
  kp_purposeOfTransaction :: string

text \<open>
  \<open>md5_hex\<close> is \<^verbatim>\<open>crypto.createHash("md5").update(s).digest("hex")\<close>; \<^verbatim>\<open>update\<close>
  throws when it is given a value that is not a string.
\<close>

definition create_khqr_003 ::
  "(jsval \<Rightarrow> jsnum) \<Rightarrow> (khqr_params \<Rightarrow> jsval outcome) \<Rightarrow> (string \<Rightarrow> string) \<Rightarrow>
   (jsval \<Rightarrow> string outcome) \<Rightarrow> config \<Rightarrow> world \<Rightarrow> ledger \<Rightarrow> create_request \<Rightarrow>
   khqr_params create_result" where
  "create_khqr_003 conv KHQR_generate md5_hex toDataURL cfg w ORDERS req =
     (let caught = (\<lambda>calls.
            \<lparr> cr_response = json 500 [(''ok'', Bool False), (''error'', Str ''Server error'')],
              cr_ORDERS = ORDERS, cr_encoded = calls \<rparr>)
      in
      if \<not> truthy (req_amount req) \<or> js_le (Number conv (req_amount req)) (Fin 0) then
        \<lparr> cr_response = json 400 [(''ok'', Bool False), (''error'', Str ''Invalid amount'')],
          cr_ORDERS = ORDERS, cr_encoded = [] \<rparr>
      else
        (case js_or (req_currency req) (Str (DEFAULT_CURRENCY cfg)) of
           Str c \<Rightarrow>
             (let cur = toUpperCase (unicode_toUpperCase w) c in
              if cur \<notin> set [''USD'', ''KHR''] then
                \<lparr> cr_response = json 400 [(''ok'', Bool False),
                                           (''error'', Str ''Currency must be USD or KHR'')],
                  cr_ORDERS = ORDERS, cr_encoded = [] \<rparr>
              else if BAKONG_ACCOUNT_ID cfg = []
                      \<or> \<not> str_includes (BAKONG_ACCOUNT_ID cfg) CHR ''@'' then
                \<lparr> cr_response = json 500 [(''ok'', Bool False),
                   (''error'', Str ''BAKONG_ACCOUNT_ID is not set correctly in .env (e.g. myname@aclb)'')],
                  cr_ORDERS = ORDERS, cr_encoded = [] \<rparr>
              else
                (let orderId = generateOrderId w;
                     khqrAmount = (if cur = ''KHR'' then Math_round (Number conv (req_amount req))
                                   else Number conv (req_amount req));
                     expirationTimestamp = Date_now w + 10 * 60 * 1000;
                     params =
                       \<lparr> kp_tag = INDIVIDUAL,
                         kp_accountID = BAKONG_ACCOUNT_ID cfg,
                         kp_merchantName = MERCHANT_NAME cfg,
                         kp_merchantCity = MERCHANT_CITY cfg,
                         kp_countryCode = KH,
                         kp_currency = (if cur = ''USD'' then usd else khr),
                         kp_amount = khqrAmount,
                         kp_merchantCategoryCode = ''5999'',
                         kp_expirationTimestamp = expirationTimestamp,
                         kp_billNumber = orderId,
                         kp_purposeOfTransaction = ''Cafe order'' \<rparr>
                 in
                 case KHQR_generate params of
                   Throws \<Rightarrow> caught [params]
                 | Returns khqrResult \<Rightarrow>
                     (let khqrString =
                            js_or (js_or (js_or (opt_get (opt_get khqrResult ''data'') ''qr'')
                                                (opt_get khqrResult ''qr''))
                                         (opt_get khqrResult ''data''))
                                  (Str [])
                      in
                      if \<not> truthy khqrString then
                        \<lparr> cr_response = json 500 [(''ok'', Bool False),
                           (''error'', Str ''Failed to generate KHQR string (check ts-khqr version / result shape)'')],
                          cr_ORDERS = ORDERS, cr_encoded = [params] \<rparr>
                      else
                        (case khqrString of
                           Str ks \<Rightarrow>
                             (case toDataURL khqrString of
                                Throws \<Rightarrow> caught [params]
                              | Returns qrPngDataUrl \<Rightarrow>
                                  \<lparr> cr_response = json 200
                                      [(''ok'', Bool True), (''orderId'', Str orderId),
                                       (''amount'', Num khqrAmount), (''currency'', Str cur),
                                       (''qrString'', khqrString), (''md5'', Str (md5_hex ks)),
                                       (''qrImage'', Str qrPngDataUrl)],
                                    cr_ORDERS = ORDERS(orderId \<mapsto>
                                      \<lparr> orderId = orderId, amount = khqrAmount, currency = cur,
                                        qrString = khqrString, md5 = Str (md5_hex ks),
                                        status = PENDING, createdAt = Undefined \<rparr>),
                                    cr_encoded = [params] \<rparr>)
                         | _ \<Rightarrow> caught [params]))))
         | _ \<Rightarrow> caught []))"

text \<open>
  The status check reads \<^verbatim>\<open>data.responseCode\<close> without testing \<^verbatim>\<open>data\<close>, which throws
  on a null or missing response body, and answers with the status alone.
\<close>

definition check_payment_003 ::
  "(jsval \<Rightarrow> jsnum) \<Rightarrow> (http_post \<Rightarrow> jsval outcome) \<Rightarrow> config \<Rightarrow> ledger \<Rightarrow> string \<Rightarrow>
   check_result" where
  "check_payment_003 conv axios_post cfg ORDERS oid =
     (let ord = lookup_order ORDERS oid;
          caught = \<lparr> ck_response = json 500 [(''ok'', Bool False),
                                             (''error'', Str ''Check payment error'')],
                     ck_ORDERS = ORDERS, ck_posts = [check_request cfg ord],
                     ck_builtin_write = False \<rparr>
      in
      if ord = NoOrder then
        \<lparr> ck_response = json 404 [(''ok'', Bool False), (''error'', Str ''Order not found'')],
          ck_ORDERS = ORDERS, ck_posts = [], ck_builtin_write = False \<rparr>
      else if strict_eq (ref_status ord) (Str ''PAID'') then
        \<lparr> ck_response = json 200 [(''ok'', Bool True), (''status'', Str ''PAID''),
                                   (''amount'', ref_amount ord), (''currency'', ref_currency ord)],
          ck_ORDERS = ORDERS, ck_posts = [], ck_builtin_write = False \<rparr>
      else if BAKONG_TOKEN cfg = [] \<or> BAKONG_TOKEN cfg = ''YOUR_BAKONG_API_TOKEN_HERE'' then
        \<lparr> ck_response = json 200 [(''ok'', Bool True), (''status'', Str ''PENDING''),
            (''note'', Str ''BAKONG_TOKEN not set yet; backend is not checking real status.'')],
          ck_ORDERS = ORDERS, ck_posts = [], ck_builtin_write = False \<rparr>
      else
        (case axios_post (check_request cfg ord) of
           Throws \<Rightarrow> caught
         | Returns data \<Rightarrow>
             if nullish data then caught
             else
               (let paid = (strict_eq (get_prop data ''responseCode'') (Num (Fin 0))
                            \<and> truthy (get_prop data ''data'') \<and> same_payment conv data ord);
                    ORDERS' = (if paid then mark_paid ORDERS oid else ORDERS);
                    ord' = lookup_order ORDERS' oid
                in \<lparr> ck_response = json 200 [(''ok'', Bool True), (''status'', ref_status ord')],
                     ck_ORDERS = ORDERS', ck_posts = [check_request cfg ord],
                     ck_builtin_write = (paid \<and> ord = Builtin) \<rparr>)))"

section \<open>Sequences of requests\<close>

text \<open>A client polling the status of one order \<open>n\<close> times in a row.\<close>

fun poll ::
  "(jsval \<Rightarrow> jsnum) \<Rightarrow> (http_post \<Rightarrow> jsval outcome) \<Rightarrow> config \<Rightarrow> string \<Rightarrow> nat \<Rightarrow> ledger \<Rightarrow>
   check_result list" where
  "poll conv axios_post cfg oid 0 ORDERS = []"
| "poll conv axios_post cfg oid (Suc n) ORDERS =
     (let r = check_payment conv axios_post cfg ORDERS oid
      in r # poll conv axios_post cfg oid n (ck_ORDERS r))"

text \<open>
  The two requests of the service, each with the behaviour of the collaborators at the
  time it is served, and the store after a sequence of them.
\<close>

datatype operation =
    Create world create_request "ctor_arg list \<Rightarrow> jsval outcome" "jsval \<Rightarrow> string outcome"
  | Check string "http_post \<Rightarrow> jsval outcome"

fun step :: "(jsval \<Rightarrow> jsnum) \<Rightarrow> config \<Rightarrow> ledger \<Rightarrow> operation \<Rightarrow> ledger" where
  "step conv cfg ORDERS (Create w req generateIndividual toDataURL) =
     cr_ORDERS (create_khqr conv generateIndividual toDataURL cfg w ORDERS req)"
| "step conv cfg ORDERS (Check oid axios_post) =
     ck_ORDERS (check_payment conv axios_post cfg ORDERS oid)"

fun run :: "(jsval \<Rightarrow> jsnum) \<Rightarrow> config \<Rightarrow> ledger \<Rightarrow> operation list \<Rightarrow> ledger" where
  "run conv cfg ORDERS [] = ORDERS"
| "run conv cfg ORDERS (x # xs) = run conv cfg (step conv cfg ORDERS x) xs"


text \<open>A creation request that generates the id \<open>k\<close>.\<close>

fun creates_id :: "string \<Rightarrow> operation \<Rightarrow> bool" where
  "creates_id k (Create w req generateIndividual toDataURL) = (generateOrderId w = k)"
| "creates_id k (Check oid axios_post) = False"

section \<open>Example inputs\<close>

definition example_config :: config where
  "example_config =
     \<lparr> BAKONG_BASE_URL = ''https://api-bakong.nbc.gov.kh'', BAKONG_TOKEN = ''secret-token'',
       BAKONG_ACCOUNT_ID = ''cafe@aclb'', MERCHANT_NAME = ''CVG Cafe'',
       MERCHANT_CITY = ''Phnom Penh'', DEFAULT_CURRENCY = ''USD'' \<rparr>"

definition example_world :: world where
  "example_world =
     \<lparr> now = \<lparr> getFullYear = 2025, getMonth = 0, getDate = 5, getHours = 9,
               getMinutes = 3, getSeconds = 7 \<rparr>,
       Math_random = 1 / 8, Date_now = 1736067787000,
       toISOString = ''2025-01-05T09:03:07.000Z'',
       unicode_toUpperCase = (\<lambda>s. s) \<rparr>"

text \<open>A codec that succeeds, a rasterizer that succeeds, and no string conversion.\<close>

definition example_codec :: "'q \<Rightarrow> jsval outcome" where
  "example_codec q =
     Returns (Obj [(''status'', Obj [(''code'', Num (Fin 0))]),
                   (''data'', Obj [(''qr'', Str ''00020101021229''),
                                   (''md5'', Str ''9e107d9d372bb6826bd81d3542a419d6'')])])"

definition example_rasterizer :: "jsval \<Rightarrow> string outcome" where
  "example_rasterizer v = Returns ''data:image/png;base64,iVBORw0KGgo=''"

definition no_conv :: "jsval \<Rightarrow> jsnum" where
  "no_conv v = NaN"

text \<open>A settlement service that reports a record of the given amount and currency.\<close>

definition settled :: "jsnum \<Rightarrow> string \<Rightarrow> http_post \<Rightarrow> jsval outcome" where
  "settled a c q =
     Returns (Obj [(''responseCode'', Num (Fin 0)),
                   (''data'', Obj [(''amount'', Num a), (''currency'', Str c)])])"

definition example_order :: "jsnum \<Rightarrow> string \<Rightarrow> order_status \<Rightarrow> order" where
  "example_order a c s =
     \<lparr> orderId = ''CAFE-20250105090307-125'', amount = a, currency = c,
       qrString = Str ''00020101021229'', md5 = Str ''9e107d9d372bb6826bd81d3542a419d6'',
       status = s, createdAt = Str ''2025-01-05T09:03:07.000Z'' \<rparr>"

text \<open>A store that holds one order, and a settlement service that is down.\<close>

definition example_ledger :: "jsnum \<Rightarrow> string \<Rightarrow> order_status \<Rightarrow> ledger" where
  "example_ledger a c s = Map.empty(''CAFE-20250105090307-125'' \<mapsto> example_order a c s)"

definition service_down :: "http_post \<Rightarrow> jsval outcome" where
  "service_down q = Throws"

definition example_request :: create_request where
  "example_request = \<lparr> req_amount = Num (Fin (3 / 2)), req_currency = Str ''USD'' \<rparr>"

definition example_md5 :: "string \<Rightarrow> string" where
  "example_md5 s = ''9e107d9d372bb6826bd81d3542a419d6''"

section \<open>The conditions the creation handlers test\<close>

text \<open>\<^verbatim>\<open>!BAKONG_ACCOUNT_ID || !BAKONG_ACCOUNT_ID.includes("@")\<close>\<close>

definition misconfigured_merchant :: "config \<Rightarrow> bool" where
  "misconfigured_merchant cfg =
     (BAKONG_ACCOUNT_ID cfg = [] \<or> \<not> str_includes (BAKONG_ACCOUNT_ID cfg) CHR ''@'')"

text \<open>\<^verbatim>\<open>amount = Number(amount || 0); !amount || amount <= 0\<close> in \<^verbatim>\<open>server.js\<close>.\<close>

definition invalid_amount :: "(jsval \<Rightarrow> jsnum) \<Rightarrow> create_request \<Rightarrow> bool" where
  "invalid_amount conv req =
     (let amount = Number conv (js_or (req_amount req) (Num (Fin 0)))
      in \<not> truthy (Num amount) \<or> js_le amount (Fin 0))"

text \<open>\<^verbatim>\<open>!amount || amount <= 0\<close> on the raw amount in \<^verbatim>\<open>src/unnamed/part_003\<close>.\<close>

definition invalid_amount_003 :: "(jsval \<Rightarrow> jsnum) \<Rightarrow> create_request \<Rightarrow> bool" where
  "invalid_amount_003 conv req =
     (\<not> truthy (req_amount req) \<or> js_le (Number conv (req_amount req)) (Fin 0))"

text \<open>
  \<^verbatim>\<open>(currency || DEFAULT_CURRENCY).toUpperCase()\<close>; \<open>None\<close> when the call throws because
  the currency of the body is not a string.
\<close>

definition currency_code :: "config \<Rightarrow> world \<Rightarrow> create_request \<Rightarrow> string option" where
  "currency_code cfg w req =
     (case js_or (req_currency req) (Str (DEFAULT_CURRENCY cfg)) of
        Str c \<Rightarrow> Some (toUpperCase (unicode_toUpperCase w) c)
      | _ \<Rightarrow> None)"

section \<open>What a creation request gave the codec\<close>

text \<open>The amount and the currency inside the \<open>optionalData\<close> of a codec call.\<close>

definition encoded_amount :: "ctor_arg list \<Rightarrow> jsnum list" where
  "encoded_amount info = [od_amount od. AOpt od \<leftarrow> info]"

definition encoded_currency :: "ctor_arg list \<Rightarrow> khqr_currency list" where
  "encoded_currency info = [od_currency od. AOpt od \<leftarrow> info]"

text \<open>A codec result that \<^verbatim>\<open>server.js\<close> accepts, and the test the handler makes.\<close>

definition codec_ok :: "jsval \<Rightarrow> bool" where
  "codec_ok result =
     (truthy result \<and> \<not> nullish (get_prop result ''status'')
      \<and> strict_eq (get_prop (get_prop result ''status'') ''code'') (Num (Fin 0))
      \<and> truthy (get_prop result ''data''))"

section \<open>Facts about the numbers\<close>

text \<open>
  The rounding \<open>fl\<close> gives a binary64 value and the nearest one: a finite result is a
  multiple \<open>m * 2^e\<close> with \<open>\<bar>m\<bar> \<le> 2^53\<close> and \<open>- 1074 \<le> e \<le> 971\<close> that is at
  most half a unit \<open>2^e\<close> away from the argument.
\<close>

lemma pow2_powi: "pow2 k = 2 powi k"
  by (simp add: pow2_def power_int_def field_simps)

lemma bitlen_bounds:
  "0 < n \<Longrightarrow> 2 ^ nat (bitlen n - 1) \<le> n \<and> n < 2 ^ nat (bitlen n) \<and> 1 \<le> bitlen n"
proof (induction n rule: bitlen.induct)
  case (1 n)
  show ?case
  proof (cases "n div 2 = 0")
    case True
    with "1.prems" have "n = 1" by presburger
    then show ?thesis by (simp add: bitlen.simps)
  next
    case False
    with "1.prems" have pos: "0 < n div 2" by presburger
    with "1.IH" "1.prems" have IH: "2 ^ nat (bitlen (n div 2) - 1) \<le> n div 2"
      "n div 2 < 2 ^ nat (bitlen (n div 2))" "1 \<le> bitlen (n div 2)"
      by simp_all
    have b: "bitlen n = 1 + bitlen (n div 2)"
      using "1.prems" by (subst bitlen.simps) simp
    have e1: "nat (bitlen n - 1) = Suc (nat (bitlen (n div 2) - 1))"
      using b IH(3) by simp
    have e2: "nat (bitlen n) = Suc (nat (bitlen (n div 2)))"
      using b IH(3) by simp
    have "2 * (n div 2) \<le> n" "n < 2 * (n div 2) + 2" by presburger+
    with IH show ?thesis
      unfolding e1 e2 using b by auto
  qed
qed

lemma ilog2_bracket:
  assumes "0 < a"
  shows "pow2 (ilog2 a) \<le> a \<and> a < pow2 (ilog2 a + 1)"
proof -
  obtain p q where pq: "quotient_of a = (p, q)"
    by (cases "quotient_of a")
  then have q: "0 < q" and a: "a = of_int p / of_int q"
    by (simp_all add: quotient_of_denom_pos quotient_of_div)
  with assms have p: "0 < p"
    by (simp add: zero_less_divide_iff)
  let ?bp = "bitlen p" and ?bq = "bitlen q"
  have cast: "(2::rat) powi (bitlen n - 1) \<le> of_int n \<and> of_int n < (2::rat) powi bitlen n"
    if "0 < n" for n
  proof -
    from bitlen_bounds[OF that]
    have "(of_int (2 ^ nat (bitlen n - 1)) :: rat) \<le> of_int n"
      "(of_int n :: rat) < of_int (2 ^ nat (bitlen n))" "1 \<le> bitlen n"
      by (simp_all only: of_int_le_iff of_int_less_iff)
    then show ?thesis
      by (simp add: power_int_def)
  qed
  from cast[OF p] have P: "(2::rat) powi (?bp - 1) \<le> of_int p" "of_int p < (2::rat) powi ?bp"
    by simp_all
  from cast[OF q] have Q: "(2::rat) powi (?bq - 1) \<le> of_int q" "of_int q < (2::rat) powi ?bq"
    by simp_all
  have "a < 2 powi ?bp / 2 powi (?bq - 1)"
    unfolding a using P(2) Q(1) p by (intro frac_less) simp_all
  then have up: "a < 2 powi (?bp - ?bq + 1)"
    by (simp add: power_int_diff power_int_add)
  have "2 powi (?bp - 1) / 2 powi ?bq < a"
    unfolding a using P(1) Q(2) q by (intro frac_less2) simp_all
  then have low: "2 powi (?bp - ?bq - 1) < a"
    by (simp add: power_int_diff)
  show ?thesis
    using up low pq by (auto simp: ilog2_def Let_def pow2_powi)
qed

lemma rne_error: "\<bar>of_int (rne y) - y\<bar> \<le> 1 / 2"
  unfolding rne_def Let_def by (auto simp: abs_if) linarith+


lemma pow2_pos [simp]: "0 < pow2 k"
  by (simp add: pow2_powi)

lemma pow2_nonzero [simp]: "pow2 k \<noteq> 0"
  by (simp add: pow2_powi)

lemma pow2_nonneg [simp]: "0 \<le> pow2 k"
  by (simp add: pow2_powi)

lemma pow2_abs [simp]: "\<bar>pow2 k\<bar> = pow2 k"
  by (simp add: pow2_powi)

lemma pow2_mono: "i \<le> j \<Longrightarrow> pow2 i \<le> pow2 j"
  by (simp add: pow2_powi power_int_increasing)

lemma pow2_add: "pow2 (i + j) = pow2 i * pow2 j"
  by (simp add: pow2_powi power_int_add)

lemma pow2_53: "pow2 53 = 2 ^ 53"
  by (simp add: pow2_def)

lemma rne_floor: "\<lfloor>z\<rfloor> \<le> rne z \<and> rne z \<le> \<lfloor>z\<rfloor> + 1"
  by (simp add: rne_def Let_def)

lemma rne_bounds:
  assumes "0 \<le> z" and "z \<le> of_int n"
  shows "0 \<le> rne z \<and> rne z \<le> n"
proof (cases "\<lfloor>z\<rfloor> = n")
  case True
  then have "of_int n \<le> z"
    using of_int_floor_le[of z] by simp
  with assms(2) have "z = of_int n" by simp
  then have "rne z = n"
    by (simp add: rne_def)
  with assms(1) \<open>z = of_int n\<close> show ?thesis by simp
next
  case False
  moreover have "0 \<le> \<lfloor>z\<rfloor>" "\<lfloor>z\<rfloor> \<le> n"
    using assms by (simp_all add: floor_le_iff le_floor_iff)
  ultimately show ?thesis
    using rne_floor[of z] by linarith
qed

lemma fl_nearest:
  assumes "fl x = Fin y"
  shows "\<exists>m e. y = of_int m * pow2 e \<and> \<bar>m\<bar> \<le> 2 ^ 53 \<and> - 1074 \<le> e \<and> e \<le> 971
               \<and> \<bar>y - x\<bar> \<le> pow2 e / 2"
proof (cases "x = 0")
  case True
  with assms have "y = 0" by (simp add: fl_def)
  with True show ?thesis
    by (intro exI[of _ 0] exI[of _ "0::int"]) (simp add: pow2_def)
next
  case False
  define a where "a = \<bar>x\<bar>"
  define e where "e = max (ilog2 a - 52) (- 1074)"
  define m where "m = rne (a / pow2 e)"
  define s :: rat where "s = (if 0 < x then 1 else - 1)"
  have a: "0 < a" using False by (simp add: a_def)
  from assms False have fin: "\<not> (971 < e \<or> (e = 971 \<and> m = 2 ^ 53))"
    and y: "y = s * of_int m * pow2 e"
    unfolding fl_def a_def[symmetric] Let_def e_def[symmetric] m_def[symmetric] s_def
    by (auto split: if_splits)
  have x: "x = s * a"
    by (simp add: s_def a_def)
  have "a < pow2 (ilog2 a + 1)"
    using ilog2_bracket[OF a] by simp
  also have "ilog2 a + 1 = ilog2 a - 52 + 53"
    by simp
  also have "pow2 (ilog2 a - 52 + 53) = pow2 (ilog2 a - 52) * 2 ^ 53"
    by (simp only: pow2_add pow2_53)
  also have "\<dots> \<le> pow2 e * 2 ^ 53"
    by (simp add: e_def pow2_mono)
  finally have "a / pow2 e < 2 ^ 53"
    by (simp add: pos_divide_less_eq mult.commute)
  then have "0 \<le> a / pow2 e" "a / pow2 e \<le> of_int (2 ^ 53)"
    using a by simp_all
  from rne_bounds[OF this] have m: "0 \<le> m" "m \<le> 2 ^ 53"
    by (simp_all add: m_def)
  have "\<bar>y - x\<bar> = \<bar>of_int m * pow2 e - a\<bar>"
    unfolding y x by (simp add: s_def abs_minus_commute algebra_simps)
  also have "of_int m * pow2 e - a = pow2 e * (of_int m - a / pow2 e)"
    by (simp add: algebra_simps)
  also have "\<bar>\<dots>\<bar> = pow2 e * \<bar>of_int (rne (a / pow2 e)) - a / pow2 e\<bar>"
    by (simp add: abs_mult m_def)
  also have "\<dots> \<le> pow2 e * (1 / 2)"
    by (intro mult_left_mono rne_error pow2_nonneg)
  finally have err: "\<bar>y - x\<bar> \<le> pow2 e / 2"
    by simp
  have "y = of_int (if 0 < x then m else - m) * pow2 e"
    by (simp add: y s_def)
  moreover have "\<bar>if 0 < x then m else - m\<bar> \<le> 2 ^ 53"
    using m by simp
  moreover have "- 1074 \<le> e" "e \<le> 971"
    using fin by (auto simp: e_def)
  ultimately show ?thesis
    using err by blast
qed

section \<open>Facts about the model\<close>

lemma js_sub_NaN_right [simp]: "js_sub x NaN = NaN"
  by (cases x) simp_all

lemma status_str_PAID [simp]: "(status_str s = ''PAID'') = (s = PAID)"
  by (cases s) simp_all

lemma lookup_order_own [simp]:
  "ORDERS k = Some ord \<Longrightarrow> lookup_order ORDERS k = OwnOrder ord"
  by (simp add: lookup_order_def)

text \<open>
  An inherited member has no amount, so the difference of the amounts is NaN and the
  comparison fails: the service of \<^verbatim>\<open>server.js\<close> never assigns to a built-in object.
\<close>

lemma same_payment_Builtin [simp]: "same_payment conv data Builtin = False"
  by (simp add: same_payment_def Let_def)

lemma check_payment_no_builtin_write:
  "ck_builtin_write (check_payment conv axios_post cfg ORDERS oid) = False"
  by (auto simp: check_payment_def Let_def split: outcome.splits)

lemma check_payment_003_no_builtin_write:
  "ck_builtin_write (check_payment_003 conv axios_post cfg ORDERS oid) = False"
  by (auto simp: check_payment_003_def Let_def split: outcome.splits)

lemma check_payment_paid:
  assumes "ORDERS oid = Some ord" and "status ord = PAID"
  shows "check_payment conv axios_post cfg ORDERS oid =
           \<lparr> ck_response = json 200 [(''ok'', Bool True), (''status'', Str ''PAID''),
                                      (''amount'', Num (amount ord)),
                                      (''currency'', Str (currency ord))],
             ck_ORDERS = ORDERS, ck_posts = [], ck_builtin_write = False \<rparr>"
  using assms by (simp add: check_payment_def Let_def)

text \<open>A status check leaves the store as it is, or marks the pending order it was asked about.\<close>

lemma check_payment_unchanged_or_marked:
  "ck_ORDERS (check_payment conv axios_post cfg ORDERS oid) = ORDERS
   \<or> (\<exists>ord. ORDERS oid = Some ord \<and> status ord = PENDING
        \<and> ck_ORDERS (check_payment conv axios_post cfg ORDERS oid)
            = ORDERS(oid \<mapsto> ord\<lparr>status := PAID\<rparr>)
        \<and> ck_response (check_payment conv axios_post cfg ORDERS oid) =
            json 200 [(''ok'', Bool True), (''status'', Str ''PAID''),
                      (''amount'', Num (amount ord)), (''currency'', Str (currency ord))])"
proof (cases "ORDERS oid")
  case None
  then show ?thesis
    by (auto simp: check_payment_def Let_def lookup_order_def mark_paid_def split: outcome.splits)
next
  case (Some ord)
  show ?thesis
  proof (cases "status ord")
    case PAID
    with Some show ?thesis by (simp add: check_payment_paid)
  next
    case PENDING
    with Some show ?thesis
      by (auto simp: check_payment_def Let_def mark_paid_def split: outcome.splits)
  qed
qed

lemma check_payment_003_unchanged_or_marked:
  "ck_ORDERS (check_payment_003 conv axios_post cfg ORDERS oid) = ORDERS
   \<or> (\<exists>ord. ORDERS oid = Some ord \<and> status ord = PENDING
        \<and> ck_ORDERS (check_payment_003 conv axios_post cfg ORDERS oid)
            = ORDERS(oid \<mapsto> ord\<lparr>status := PAID\<rparr>))"
proof (cases "ORDERS oid")
  case None
  then show ?thesis
    by (auto simp: check_payment_003_def Let_def lookup_order_def mark_paid_def
             split: outcome.splits)
next
  case (Some ord)
  show ?thesis
  proof (cases "status ord")
    case PAID
    with Some show ?thesis by (simp add: check_payment_003_def Let_def)
  next
    case PENDING
    with Some show ?thesis
      by (auto simp: check_payment_003_def Let_def mark_paid_def split: outcome.splits)
  qed
qed

lemma check_payment_twice:
  "ck_response (check_payment conv axios_post cfg
       (ck_ORDERS (check_payment conv axios_post cfg ORDERS oid)) oid)
     = ck_response (check_payment conv axios_post cfg ORDERS oid)"
  using check_payment_unchanged_or_marked[of conv axios_post cfg ORDERS oid]
  by (auto simp: check_payment_paid)

lemma poll_paid:
  assumes "ORDERS oid = Some ord" and "status ord = PAID"
  shows "poll conv axios_post cfg oid n ORDERS =
           replicate n (check_payment conv axios_post cfg ORDERS oid)"
  using assms by (induction n) (simp_all add: check_payment_paid Let_def)

text \<open>A response that says PAID comes with a store in which the order is PAID.\<close>

lemma observed_paid:
  assumes "map_of (body (ck_response (check_payment conv axios_post cfg ORDERS oid))) ''status''
             = Some (Str ''PAID'')"
  shows "\<exists>ord. ck_ORDERS (check_payment conv axios_post cfg ORDERS oid) oid = Some ord
               \<and> status ord = PAID"
proof (cases "ORDERS oid")
  case None
  with assms show ?thesis
    by (auto simp: check_payment_def Let_def lookup_order_def mark_paid_def json_def
             split: outcome.splits if_splits)
next
  case (Some ord)
  show ?thesis
  proof (cases "status ord")
    case PAID
    with Some show ?thesis by (simp add: check_payment_paid)
  next
    case PENDING
    with Some assms show ?thesis
      by (auto simp: check_payment_def Let_def mark_paid_def json_def
               split: outcome.splits if_splits)
  qed
qed


text \<open>
  What a creation request does to the store: nothing, or it puts a new pending order under
  the generated id.  Whether that id is already stored is not looked at.
\<close>

lemma create_khqr_store:
  "cr_ORDERS (create_khqr conv generateIndividual toDataURL cfg w ORDERS req) = ORDERS
     \<and> http_status (cr_response (create_khqr conv generateIndividual toDataURL cfg w ORDERS req))
         \<in> {400, 500}
   \<or> (\<exists>ord. cr_ORDERS (create_khqr conv generateIndividual toDataURL cfg w ORDERS req)
              = ORDERS(generateOrderId w \<mapsto> ord)
          \<and> orderId ord = generateOrderId w \<and> status ord = PENDING
          \<and> http_status (cr_response (create_khqr conv generateIndividual toDataURL cfg w ORDERS req))
              = 200)"
  by (auto simp: create_khqr_def Let_def json_def split: jsval.splits outcome.splits)


text \<open>
  An order that is PAID stays as it is along every sequence of requests in which no creation
  request generates its id.
\<close>

lemma step_keeps_paid:
  assumes "ORDERS k = Some ord" and "status ord = PAID" and "\<not> creates_id k x"
  shows "step conv cfg ORDERS x k = Some ord"
proof (cases x)
  case (Create w req generateIndividual toDataURL)
  with assms have "generateOrderId w \<noteq> k"
    by simp
  then have "step conv cfg ORDERS x k = ORDERS k"
    using create_khqr_store[of conv generateIndividual toDataURL cfg w ORDERS req] Create
    by auto
  with assms show ?thesis by simp
next
  case (Check oid axios_post)
  from check_payment_unchanged_or_marked[of conv axios_post cfg ORDERS oid]
  show ?thesis
  proof
    assume "ck_ORDERS (check_payment conv axios_post cfg ORDERS oid) = ORDERS"
    with assms Check show ?thesis by simp
  next
    assume "\<exists>ord. ORDERS oid = Some ord \<and> status ord = PENDING
        \<and> ck_ORDERS (check_payment conv axios_post cfg ORDERS oid)
            = ORDERS(oid \<mapsto> ord\<lparr>status := PAID\<rparr>)
        \<and> ck_response (check_payment conv axios_post cfg ORDERS oid) =
            json 200 [(''ok'', Bool True), (''status'', Str ''PAID''),
                      (''amount'', Num (amount ord)), (''currency'', Str (currency ord))]"
    then obtain o1 where o1: "ORDERS oid = Some o1" "status o1 = PENDING"
      "ck_ORDERS (check_payment conv axios_post cfg ORDERS oid) = ORDERS(oid \<mapsto> o1\<lparr>status := PAID\<rparr>)"
      by blast
    with assms have "k \<noteq> oid"
      by auto
    with o1 assms Check show ?thesis by simp
  qed
qed

lemma run_keeps_paid:
  assumes "ORDERS k = Some ord" and "status ord = PAID" and "\<not> list_ex (creates_id k) ops"
  shows "run conv cfg ORDERS ops k = Some ord"
  using assms
proof (induction ops arbitrary: ORDERS)
  case Nil
  then show ?case by simp
next
  case (Cons x xs)
  from Cons.prems have "step conv cfg ORDERS x k = Some ord"
    by (simp add: step_keeps_paid)
  with Cons.IH[of "step conv cfg ORDERS x"] Cons.prems show ?case
    by simp
qed

section \<open>Reconciliation\<close>

lemma strict_eq_Str [simp]: "strict_eq v (Str c) = (v = Str c)"
  by (cases v) auto

text \<open>Two well-known binary64 values: the literals 0.1 and 1.5.\<close>

lemma lit_0_1: "lit (1 / 10) = Fin (3602879701896397 / 36028797018963968)"
  by code_simp

lemma lit_1_5: "lit (3 / 2) = Fin (3 / 2)"
  by code_simp

text \<open>The literals of the reconciliation examples, and the differences the runtime computes.\<close>

lemma lit_tolerance: "lit (1 / 10000) = Fin (7378697629483821 / 73786976294838206464)"
  by code_simp

lemma lit_5_0001: "lit (50001 / 10000) = Fin (1407403031050951 / 281474976710656)"
  by code_simp

lemma lit_5_01: "lit (501 / 100) = Fin (2820379266640773 / 562949953421312)"
  by code_simp

lemma exact_28147497671: "fl (28147497671 / 281474976710656) = Fin (28147497671 / 281474976710656)"
  by code_simp

lemma exact_5629499534213: "fl (5629499534213 / 562949953421312) = Fin (5629499534213 / 562949953421312)"
  by code_simp

lemma diff_5_0001:
  "js_sub (Fin (1407403031050951 / 281474976710656)) (Fin 5) = Fin (28147497671 / 281474976710656)"
proof -
  have "(1407403031050951 / 281474976710656 :: rat) - 5 = 28147497671 / 281474976710656"
    by simp
  with exact_28147497671 show ?thesis by simp
qed

lemma diff_5_01:
  "js_sub (Fin (2820379266640773 / 562949953421312)) (Fin 5) = Fin (5629499534213 / 562949953421312)"
proof -
  have "(2820379266640773 / 562949953421312 :: rat) - 5 = 5629499534213 / 562949953421312"
    by simp
  with exact_5629499534213 show ?thesis by simp
qed

text \<open>
  In binary64 the difference of 5.0001 and 5 is below the literal 0.0001 (in the rationals
  it is equal to it); the difference of 5.01 and 5 is not.
\<close>

lemma within_tolerance_5_0001:
  "js_lt (Math_abs (js_sub (lit (50001 / 10000)) (Fin 5))) (lit (1 / 10000))"
  unfolding lit_5_0001 lit_tolerance diff_5_0001 by simp

lemma outside_tolerance_5_01:
  "\<not> js_lt (Math_abs (js_sub (lit (501 / 100)) (Fin 5))) (lit (1 / 10000))"
  unfolding lit_5_01 lit_tolerance diff_5_01 by simp

text \<open>
  The status check of \<^verbatim>\<open>server.js\<close> on a pending order, with a token configured and
  a response of the settlement service: the order is marked paid exactly when the response
  is a matched record whose currency is the stored one and whose amount differs from the
  stored one by less than the tolerance.
\<close>

lemma check_payment_pending:
  assumes "ORDERS oid = Some ord" and "status ord = PENDING"
    and "BAKONG_TOKEN cfg \<noteq> []" and "BAKONG_TOKEN cfg \<noteq> ''YOUR_BAKONG_API_TOKEN_HERE''"
    and "axios_post (check_request cfg (OwnOrder ord)) = Returns data"
  shows "check_payment conv axios_post cfg ORDERS oid =
           (if matched data \<and> same_payment conv data (OwnOrder ord) then
              \<lparr> ck_response = json 200 [(''ok'', Bool True), (''status'', Str ''PAID''),
                                      (''amount'', Num (amount ord)),
                                      (''currency'', Str (currency ord))],
                ck_ORDERS = ORDERS(oid \<mapsto> ord\<lparr>status := PAID\<rparr>),
                ck_posts = [check_request cfg (OwnOrder ord)], ck_builtin_write = False \<rparr>
            else
              \<lparr> ck_response = json 200 [(''ok'', Bool True), (''status'', Str ''PENDING''),
                                      (''amount'', Num (amount ord)),
                                      (''currency'', Str (currency ord))],
                ck_ORDERS = ORDERS,
                ck_posts = [check_request cfg (OwnOrder ord)], ck_builtin_write = False \<rparr>)"
  using assms by (simp add: check_payment_def Let_def mark_paid_def)

lemma check_payment_pays_iff:
  assumes "ORDERS oid = Some ord" and "status ord = PENDING"
    and "BAKONG_TOKEN cfg \<noteq> []" and "BAKONG_TOKEN cfg \<noteq> ''YOUR_BAKONG_API_TOKEN_HERE''"
    and "axios_post (check_request cfg (OwnOrder ord)) = Returns data"
    and "matched data"
  shows "(map_option status (ck_ORDERS (check_payment conv axios_post cfg ORDERS oid) oid) = Some PAID)
         = (get_prop (get_prop data ''data'') ''currency'' = Str (currency ord)
            \<and> js_lt (Math_abs (js_sub (Number conv (get_prop (get_prop data ''data'') ''amount''))
                                       (amount ord)))
                     (lit (1 / 10000)))"
  using assms by (simp add: check_payment_pending same_payment_def Let_def)

text \<open>The hypotheses of the two lemmas above at the example order of 5.00 USD.\<close>

lemma example_check_hypotheses:
  "example_ledger (Fin 5) ''USD'' PENDING ''CAFE-20250105090307-125''
     = Some (example_order (Fin 5) ''USD'' PENDING)"
  "status (example_order (Fin 5) ''USD'' PENDING) = PENDING"
  "BAKONG_TOKEN example_config \<noteq> []"
  "BAKONG_TOKEN example_config \<noteq> ''YOUR_BAKONG_API_TOKEN_HERE''"
  "settled a c (check_request example_config (OwnOrder (example_order (Fin 5) ''USD'' PENDING)))
     = Returns (Obj [(''responseCode'', Num (Fin 0)),
                     (''data'', Obj [(''amount'', Num a), (''currency'', Str c)])])"
  "matched (Obj [(''responseCode'', Num (Fin 0)),
                 (''data'', Obj [(''amount'', Num a), (''currency'', Str c)])])"
  by (simp_all add: example_ledger_def example_order_def example_config_def settled_def
        matched_def)

lemma check_payment_pays_5_0001:
  "map_option status
     (ck_ORDERS (check_payment no_conv (settled (lit (50001 / 10000)) ''USD'') example_config
        (example_ledger (Fin 5) ''USD'' PENDING) ''CAFE-20250105090307-125'')
      ''CAFE-20250105090307-125'') = Some PAID"
  using check_payment_pays_iff[where ORDERS = "example_ledger (Fin 5) ''USD'' PENDING"
      and oid = "''CAFE-20250105090307-125''" and ord = "example_order (Fin 5) ''USD'' PENDING"
      and cfg = example_config and axios_post = "settled (lit (50001 / 10000)) ''USD''"
      and data = "Obj [(''responseCode'', Num (Fin 0)),
                       (''data'', Obj [(''amount'', Num (lit (50001 / 10000))), (''currency'', Str ''USD'')])]"
      and conv = no_conv,
      OF example_check_hypotheses] within_tolerance_5_0001
  by (simp add: example_order_def)

lemma check_payment_keeps_pending_5_01:
  "map_option status
     (ck_ORDERS (check_payment no_conv (settled (lit (501 / 100)) ''USD'') example_config
        (example_ledger (Fin 5) ''USD'' PENDING) ''CAFE-20250105090307-125'')
      ''CAFE-20250105090307-125'') = Some PENDING"
proof -
  have "\<not> same_payment no_conv (Obj [(''responseCode'', Num (Fin 0)),
          (''data'', Obj [(''amount'', Num (lit (501 / 100))), (''currency'', Str ''USD'')])])
        (OwnOrder (example_order (Fin 5) ''USD'' PENDING))"
    using outside_tolerance_5_01 by (simp add: same_payment_def Let_def example_order_def)
  with check_payment_pending[where ORDERS = "example_ledger (Fin 5) ''USD'' PENDING"
      and oid = "''CAFE-20250105090307-125''" and ord = "example_order (Fin 5) ''USD'' PENDING"
      and cfg = example_config and axios_post = "settled (lit (501 / 100)) ''USD''"
      and data = "Obj [(''responseCode'', Num (Fin 0)),
                       (''data'', Obj [(''amount'', Num (lit (501 / 100))), (''currency'', Str ''USD'')])]"
      and conv = no_conv,
      OF example_check_hypotheses(1-5)]
  show ?thesis
    by (simp add: example_ledger_def example_order_def)
qed

text \<open>
  The status check of \<^verbatim>\<open>src/unnamed/part_003\<close> makes the same comparison on a response
  body that is not null.
\<close>

lemma check_payment_003_pays_iff:
  assumes "ORDERS oid = Some ord" and "status ord = PENDING"
    and "BAKONG_TOKEN cfg \<noteq> []" and "BAKONG_TOKEN cfg \<noteq> ''YOUR_BAKONG_API_TOKEN_HERE''"
    and "axios_post (check_request cfg (OwnOrder ord)) = Returns data"
    and "matched data"
  shows "(map_option status (ck_ORDERS (check_payment_003 conv axios_post cfg ORDERS oid) oid)
            = Some PAID)
         = (get_prop (get_prop data ''data'') ''currency'' = Str (currency ord)
            \<and> js_lt (Math_abs (js_sub (Number conv (get_prop (get_prop data ''data'') ''amount''))
                                       (amount ord)))
                     (lit (1 / 10000)))"
proof -
  from assms(6) have "\<not> nullish data"
    by (auto simp: matched_def nullish_def)
  with assms show ?thesis
    by (simp add: check_payment_003_def Let_def mark_paid_def matched_def same_payment_def)
qed

section \<open>Creation requests that succeed\<close>

lemma valid_amount_truthy:
  assumes "\<not> invalid_amount conv req"
  shows "Number conv (js_or (req_amount req) (Num (Fin 0))) = Number conv (req_amount req)"
proof (cases "truthy (req_amount req)")
  case True
  then show ?thesis by (simp add: js_or_def)
next
  case False
  with assms show ?thesis by (simp add: invalid_amount_def js_or_def)
qed

text \<open>
  The whole result of \<^verbatim>\<open>server.js\<close> for a valid amount, a configured merchant, a
  currency that is a string (or missing) and collaborators that succeed: the order is
  stored with the currency code and the amount as they are.
\<close>

lemma create_khqr_success:
  assumes amount_ok: "\<not> invalid_amount conv req"
    and merchant_ok: "\<not> misconfigured_merchant cfg"
    and cur: "currency_code cfg w req = Some cur"
    and codec: "\<And>info. generateIndividual info = Returns result" "codec_ok result"
    and raster: "toDataURL (get_prop (get_prop result ''data'') ''qr'') = Returns qrImage"
  shows "create_khqr conv generateIndividual toDataURL cfg w ORDERS req =
     (let info = [AStr (BAKONG_ACCOUNT_ID cfg), ACur (if cur = ''KHR'' then khr else usd),
                  AStr (MERCHANT_NAME cfg), AStr (MERCHANT_CITY cfg),
                  AOpt \<lparr> od_currency = (if cur = ''KHR'' then khr else usd),
                         od_amount = Number conv (req_amount req),
                         od_storeLabel = MERCHANT_NAME cfg,
                         od_merchantCategoryCode = ''5999'',
                         od_billNumber = generateOrderId w,
                         od_purposeOfTransaction = ''Cafe order'',
                         od_expirationTimestamp = Date_now w + 600000 \<rparr>]
      in \<lparr> cr_response = json 200
             [(''ok'', Bool True), (''orderId'', Str (generateOrderId w)),
              (''amount'', Num (Number conv (req_amount req))), (''currency'', Str cur),
              (''qrString'', get_prop (get_prop result ''data'') ''qr''),
              (''md5'', get_prop (get_prop result ''data'') ''md5''),
              (''qrImage'', Str qrImage)],
           cr_ORDERS = ORDERS(generateOrderId w \<mapsto>
             \<lparr> orderId = generateOrderId w, amount = Number conv (req_amount req),
               currency = cur, qrString = get_prop (get_prop result ''data'') ''qr'',
               md5 = get_prop (get_prop result ''data'') ''md5'', status = PENDING,
               createdAt = Str (toISOString w) \<rparr>),
           cr_encoded = [info] \<rparr>)"
proof -
  have a: "Number conv (js_or (req_amount req) (Num (Fin 0))) = Number conv (req_amount req)"
    using amount_ok by (rule valid_amount_truthy)
  have ok: "truthy (Num (Number conv (req_amount req)))"
    "\<not> js_le (Number conv (req_amount req)) (Fin 0)"
    using amount_ok unfolding invalid_amount_def Let_def a by auto
  obtain c where c: "js_or (req_currency req) (Str (DEFAULT_CURRENCY cfg)) = Str c"
    "cur = toUpperCase (unicode_toUpperCase w) c"
    using cur by (auto simp: currency_code_def split: jsval.splits)
  show ?thesis
    using ok merchant_ok codec raster c
    unfolding create_khqr_def Let_def a
    by (simp add: misconfigured_merchant_def codec_ok_def)
qed

text \<open>The example collaborators meet the hypotheses of that lemma.\<close>

lemma example_collaborators:
  "\<not> misconfigured_merchant example_config"
  "example_codec info = Returns (Obj [(''status'', Obj [(''code'', Num (Fin 0))]),
                   (''data'', Obj [(''qr'', Str ''00020101021229''),
                                   (''md5'', Str ''9e107d9d372bb6826bd81d3542a419d6'')])])"
  "codec_ok (Obj [(''status'', Obj [(''code'', Num (Fin 0))]),
                  (''data'', Obj [(''qr'', Str ''00020101021229''),
                                  (''md5'', Str ''9e107d9d372bb6826bd81d3542a419d6'')])])"
  "example_rasterizer v = Returns ''data:image/png;base64,iVBORw0KGgo=''"
  by (simp_all add: misconfigured_merchant_def example_config_def str_includes_def
        example_codec_def codec_ok_def nullish_def example_rasterizer_def)



lemma valid_amount_003_iff:
  "(\<not> invalid_amount_003 conv req)
     = (truthy (req_amount req)
        \<and> (js_lt (Fin 0) (Number conv (req_amount req)) \<or> Number conv (req_amount req) = NaN))"
  by (cases "Number conv (req_amount req)") (auto simp: invalid_amount_003_def)


section \<open>The claims\<close>

text \<open>
  C1.  The claim: a matched settlement record marks a pending order paid exactly when its
  currency is the stored one and its amount is within the tolerance of the stored one.
  The status check of \<^verbatim>\<open>server.js\<close> does so (\<open>check_payment_pays_iff\<close> and the two
  examples above), and so does the one of \<^verbatim>\<open>src/unnamed/part_003\<close>.  The status check of
  \<^verbatim>\<open>src/unnamed/part_002\<close> does not: it marks a pending order paid on every matched
  settlement record, whatever amount and currency the record carries.
\<close>

theorem check_payment_002_pays_every_match:
  assumes "ORDERS oid = Some ord" and "status ord = PENDING"
    and "BAKONG_TOKEN cfg \<noteq> []" and "BAKONG_TOKEN cfg \<noteq> ''YOUR_BAKONG_API_TOKEN_HERE''"
    and "axios_post (check_request cfg (OwnOrder ord)) = Returns data"
    and "matched data"
  shows "check_payment_002 axios_post cfg ORDERS oid =
           \<lparr> ck_response = json 200 [(''ok'', Bool True), (''status'', Str ''PAID''),
                                      (''amount'', Num (amount ord)),
                                      (''currency'', Str (currency ord))],
             ck_ORDERS = ORDERS(oid \<mapsto> ord\<lparr>status := PAID\<rparr>),
             ck_posts = [check_request cfg (OwnOrder ord)], ck_builtin_write = False \<rparr>"
  using assms by (simp add: check_payment_002_def Let_def mark_paid_def)

theorem check_payment_002_pays_every_match_witness:
  "example_ledger (Fin 5) ''USD'' PENDING ''CAFE-20250105090307-125''
     = Some (example_order (Fin 5) ''USD'' PENDING)
   \<and> matched (Obj [(''responseCode'', Num (Fin 0)),
         (''data'', Obj [(''amount'', Num (lit (501 / 100))), (''currency'', Str ''KHR'')])])
   \<and> map_option status
       (ck_ORDERS (check_payment_002 (settled (lit (501 / 100)) ''KHR'') example_config
          (example_ledger (Fin 5) ''USD'' PENDING) ''CAFE-20250105090307-125'')
        ''CAFE-20250105090307-125'') = Some PAID"
proof -
  from check_payment_002_pays_every_match[where ORDERS = "example_ledger (Fin 5) ''USD'' PENDING"
      and oid = "''CAFE-20250105090307-125''" and ord = "example_order (Fin 5) ''USD'' PENDING"
      and cfg = example_config and axios_post = "settled (lit (501 / 100)) ''KHR''"
      and data = "Obj [(''responseCode'', Num (Fin 0)),
                       (''data'', Obj [(''amount'', Num (lit (501 / 100))), (''currency'', Str ''KHR'')])]",
      OF example_check_hypotheses]
  have "map_option status
       (ck_ORDERS (check_payment_002 (settled (lit (501 / 100)) ''KHR'') example_config
          (example_ledger (Fin 5) ''USD'' PENDING) ''CAFE-20250105090307-125'')
        ''CAFE-20250105090307-125'') = Some PAID"
    by simp
  with example_check_hypotheses(1) example_check_hypotheses(6)[of "lit (501 / 100)" "''KHR''"]
  show ?thesis by simp
qed

text \<open>
  C2, as the code has it.  A status check of an order stored as PAID answers PAID with the
  order's amount and currency, leaves the store as it is and sends nothing to the
  settlement service.  A second status check against the same settlement service gives
  the response of the first.  Once a response says PAID, every later status check of the
  order gives that response again and sends nothing, whatever the settlement service
  would answer and whatever creation requests and status checks are served in between,
  as long as none of these creation requests generates the id of the order.
\<close>

theorem paid_fast_path_until_id_repeats:
  fixes conv conv' :: "jsval \<Rightarrow> jsnum"
    and axios_post axios_post' :: "http_post \<Rightarrow> jsval outcome"
    and cfg :: config and ORDERS :: ledger and oid :: string and ops :: "operation list"
  defines "first \<equiv> check_payment conv axios_post cfg ORDERS oid"
  shows "(ORDERS oid = Some ord \<and> status ord = PAID \<longrightarrow>
            first = \<lparr> ck_response = json 200 [(''ok'', Bool True), (''status'', Str ''PAID''),
                                              (''amount'', Num (amount ord)),
                                              (''currency'', Str (currency ord))],
                      ck_ORDERS = ORDERS, ck_posts = [], ck_builtin_write = False \<rparr>)
       \<and> ck_response (check_payment conv axios_post cfg (ck_ORDERS first) oid) = ck_response first
       \<and> (map_of (body (ck_response first)) ''status'' = Some (Str ''PAID'') \<longrightarrow>
            poll conv' axios_post' cfg oid n (ck_ORDERS first) =
              replicate n \<lparr> ck_response = ck_response first, ck_ORDERS = ck_ORDERS first,
                            ck_posts = [], ck_builtin_write = False \<rparr>)
       \<and> (map_of (body (ck_response first)) ''status'' = Some (Str ''PAID'')
            \<and> \<not> list_ex (creates_id oid) ops \<longrightarrow>
            check_payment conv' axios_post' cfg (run conv' cfg (ck_ORDERS first) ops) oid =
              \<lparr> ck_response = ck_response first,
                ck_ORDERS = run conv' cfg (ck_ORDERS first) ops,
                ck_posts = [], ck_builtin_write = False \<rparr>)"
proof (intro conjI impI)
  assume "ORDERS oid = Some ord \<and> status ord = PAID"
  then show "first = \<lparr> ck_response = json 200 [(''ok'', Bool True), (''status'', Str ''PAID''),
                                               (''amount'', Num (amount ord)),
                                               (''currency'', Str (currency ord))],
                       ck_ORDERS = ORDERS, ck_posts = [], ck_builtin_write = False \<rparr>"
    unfolding first_def by (simp add: check_payment_paid)
next
  show "ck_response (check_payment conv axios_post cfg (ck_ORDERS first) oid) = ck_response first"
    unfolding first_def by (rule check_payment_twice)
next
  assume seen: "map_of (body (ck_response first)) ''status'' = Some (Str ''PAID'')"
  then obtain ord' where stored: "ck_ORDERS first oid = Some ord'" and paid: "status ord' = PAID"
    unfolding first_def using observed_paid by blast
  have again: "check_payment conv' axios_post' cfg (ck_ORDERS first) oid =
                 \<lparr> ck_response = json 200 [(''ok'', Bool True), (''status'', Str ''PAID''),
                                            (''amount'', Num (amount ord')),
                                            (''currency'', Str (currency ord'))],
                   ck_ORDERS = ck_ORDERS first, ck_posts = [], ck_builtin_write = False \<rparr>"
    using stored paid by (rule check_payment_paid)
  have "ck_response (check_payment conv axios_post cfg (ck_ORDERS first) oid) = ck_response first"
    unfolding first_def by (rule check_payment_twice)
  moreover have "ck_response (check_payment conv axios_post cfg (ck_ORDERS first) oid) =
                   json 200 [(''ok'', Bool True), (''status'', Str ''PAID''),
                             (''amount'', Num (amount ord')), (''currency'', Str (currency ord'))]"
    using stored paid by (simp add: check_payment_paid)
  ultimately have "check_payment conv' axios_post' cfg (ck_ORDERS first) oid =
                     \<lparr> ck_response = ck_response first, ck_ORDERS = ck_ORDERS first,
                       ck_posts = [], ck_builtin_write = False \<rparr>"
    using again by simp
  then show "poll conv' axios_post' cfg oid n (ck_ORDERS first) =
               replicate n \<lparr> ck_response = ck_response first, ck_ORDERS = ck_ORDERS first,
                             ck_posts = [], ck_builtin_write = False \<rparr>"
    using poll_paid[of "ck_ORDERS first" oid ord' conv' axios_post' cfg n] stored paid by simp
next
  assume "map_of (body (ck_response first)) ''status'' = Some (Str ''PAID'')
            \<and> \<not> list_ex (creates_id oid) ops"
  then have seen: "map_of (body (ck_response first)) ''status'' = Some (Str ''PAID'')"
    and no_repeat: "\<not> list_ex (creates_id oid) ops"
    by simp_all
  from seen obtain ord' where stored: "ck_ORDERS first oid = Some ord'"
    and paid: "status ord' = PAID"
    unfolding first_def using observed_paid by blast
  have later: "run conv' cfg (ck_ORDERS first) ops oid = Some ord'"
    using stored paid no_repeat by (rule run_keeps_paid)
  have "ck_response (check_payment conv axios_post cfg (ck_ORDERS first) oid) = ck_response first"
    unfolding first_def by (rule check_payment_twice)
  moreover have "ck_response (check_payment conv axios_post cfg (ck_ORDERS first) oid) =
                   json 200 [(''ok'', Bool True), (''status'', Str ''PAID''),
                             (''amount'', Num (amount ord')), (''currency'', Str (currency ord'))]"
    using stored paid by (simp add: check_payment_paid)
  ultimately show "check_payment conv' axios_post' cfg (run conv' cfg (ck_ORDERS first) ops) oid =
              \<lparr> ck_response = ck_response first,
                ck_ORDERS = run conv' cfg (ck_ORDERS first) ops,
                ck_posts = [], ck_builtin_write = False \<rparr>"
    using check_payment_paid[of "run conv' cfg (ck_ORDERS first) ops" oid ord' conv' axios_post' cfg]
      later paid
    by simp
qed

theorem paid_fast_path_until_id_repeats_witness:
  "example_ledger (Fin (3 / 2)) ''USD'' PAID ''CAFE-20250105090307-125''
     = Some (example_order (Fin (3 / 2)) ''USD'' PAID)
   \<and> status (example_order (Fin (3 / 2)) ''USD'' PAID) = PAID
   \<and> ck_posts (check_payment no_conv service_down example_config
        (example_ledger (Fin (3 / 2)) ''USD'' PAID) ''CAFE-20250105090307-125'') = []
   \<and> map_of (body (ck_response (check_payment no_conv (settled (Fin (3 / 2)) ''USD'')
        example_config (example_ledger (Fin (3 / 2)) ''USD'' PENDING)
        ''CAFE-20250105090307-125''))) ''status'' = Some (Str ''PAID'')
   \<and> map ck_posts (poll no_conv service_down example_config ''CAFE-20250105090307-125'' 3
        (ck_ORDERS (check_payment no_conv (settled (Fin (3 / 2)) ''USD'') example_config
           (example_ledger (Fin (3 / 2)) ''USD'' PENDING) ''CAFE-20250105090307-125'')))
       = [[], [], []]
   \<and> \<not> list_ex (creates_id ''CAFE-20250105090307-125'')
         [Create (example_world\<lparr>Math_random := 1 / 4\<rparr>) example_request example_codec
            example_rasterizer,
          Check ''CAFE-20250105090307-125'' (settled (Fin 9) ''KHR'')]
   \<and> ck_posts (check_payment no_conv service_down example_config
        (run no_conv example_config
           (ck_ORDERS (check_payment no_conv (settled (Fin (3 / 2)) ''USD'') example_config
              (example_ledger (Fin (3 / 2)) ''USD'' PENDING) ''CAFE-20250105090307-125''))
           [Create (example_world\<lparr>Math_random := 1 / 4\<rparr>) example_request example_codec
              example_rasterizer,
            Check ''CAFE-20250105090307-125'' (settled (Fin 9) ''KHR'')])
        ''CAFE-20250105090307-125'') = []
   \<and> map_of (body (ck_response (check_payment no_conv service_down example_config
        (run no_conv example_config
           (ck_ORDERS (check_payment no_conv (settled (Fin (3 / 2)) ''USD'') example_config
              (example_ledger (Fin (3 / 2)) ''USD'' PENDING) ''CAFE-20250105090307-125''))
           [Create (example_world\<lparr>Math_random := 1 / 4\<rparr>) example_request example_codec
              example_rasterizer,
            Check ''CAFE-20250105090307-125'' (settled (Fin 9) ''KHR'')])
        ''CAFE-20250105090307-125''))) ''status'' = Some (Str ''PAID'')"
proof -
  let ?k = "''CAFE-20250105090307-125''"
  let ?paid = "example_ledger (Fin (3 / 2)) ''USD'' PAID"
  let ?pending = "example_ledger (Fin (3 / 2)) ''USD'' PENDING"
  let ?ord = "example_order (Fin (3 / 2)) ''USD'' PAID"
  let ?first = "check_payment no_conv (settled (Fin (3 / 2)) ''USD'') example_config ?pending ?k"
  let ?ops = "[Create (example_world\<lparr>Math_random := 1 / 4\<rparr>) example_request example_codec
                 example_rasterizer,
               Check ?k (settled (Fin 9) ''KHR'')]"
  note fast = paid_fast_path_until_id_repeats[of ?paid ?k ?ord no_conv service_down
      example_config no_conv service_down 3 ?ops]
  note later = paid_fast_path_until_id_repeats[of ?pending ?k ?ord no_conv
      "settled (Fin (3 / 2)) ''USD''" example_config no_conv service_down 3 ?ops]
  have stored: "?paid ?k = Some ?ord \<and> status ?ord = PAID"
    by (simp add: example_ledger_def example_order_def)
  with fast have "ck_posts (check_payment no_conv service_down example_config ?paid ?k) = []"
    by simp
  moreover have seen: "map_of (body (ck_response ?first)) ''status'' = Some (Str ''PAID'')"
    by code_simp
  moreover from later seen
  have "poll no_conv service_down example_config ?k 3 (ck_ORDERS ?first) =
      replicate 3 \<lparr> ck_response = ck_response ?first, ck_ORDERS = ck_ORDERS ?first,
                    ck_posts = [], ck_builtin_write = False \<rparr>"
    by blast
  then have "map ck_posts (poll no_conv service_down example_config ?k 3 (ck_ORDERS ?first))
               = [[], [], []]"
    by (simp add: numeral_3_eq_3)
  moreover have no_repeat: "\<not> list_ex (creates_id ?k) ?ops"
    by code_simp
  moreover from later seen no_repeat
  have run: "check_payment no_conv service_down example_config
          (run no_conv example_config (ck_ORDERS ?first) ?ops) ?k =
        \<lparr> ck_response = ck_response ?first,
          ck_ORDERS = run no_conv example_config (ck_ORDERS ?first) ?ops,
          ck_posts = [], ck_builtin_write = False \<rparr>"
    by blast
  then have "ck_posts (check_payment no_conv service_down example_config
          (run no_conv example_config (ck_ORDERS ?first) ?ops) ?k) = []"
    by simp
  moreover from run seen
  have "map_of (body (ck_response (check_payment no_conv service_down example_config
          (run no_conv example_config (ck_ORDERS ?first) ?ops) ?k))) ''status''
        = Some (Str ''PAID'')"
    by simp
  ultimately show ?thesis
    using stored by simp
qed

text \<open>
  The claim as it is written fails: after a response that says PAID, a creation request
  whose generated id repeats the id of the order puts a new pending order in its place,
  and the next status check asks the settlement service again and answers PENDING.
\<close>

theorem paid_order_checked_again_after_repeated_id:
  "map_of (body (ck_response (check_payment no_conv (settled (Fin (3 / 2)) ''USD'')
        example_config (example_ledger (Fin (3 / 2)) ''USD'' PENDING)
        ''CAFE-20250105090307-125''))) ''status'' = Some (Str ''PAID'')
   \<and> map_of (body (ck_response (check_payment no_conv (settled (Fin 9) ''KHR'') example_config
        (run no_conv example_config
           (ck_ORDERS (check_payment no_conv (settled (Fin (3 / 2)) ''USD'') example_config
              (example_ledger (Fin (3 / 2)) ''USD'' PENDING) ''CAFE-20250105090307-125''))
           [Create example_world example_request example_codec example_rasterizer])
        ''CAFE-20250105090307-125''))) ''status'' = Some (Str ''PENDING'')
   \<and> length (ck_posts (check_payment no_conv (settled (Fin 9) ''KHR'') example_config
        (run no_conv example_config
           (ck_ORDERS (check_payment no_conv (settled (Fin (3 / 2)) ''USD'') example_config
              (example_ledger (Fin (3 / 2)) ''USD'' PENDING) ''CAFE-20250105090307-125''))
           [Create example_world example_request example_codec example_rasterizer])
        ''CAFE-20250105090307-125'')) = 1"
  by code_simp






text \<open>
  The variant of \<^verbatim>\<open>src/unnamed/part_003\<close> tests the amount of the body before any
  coercion: a non-empty string that is not a number is truthy and not at most zero, and
  passes the test.
\<close>

lemma create_khqr_003_passes_non_numeric_string:
  assumes "conv (Str ''abc'') = NaN"
  shows "\<not> invalid_amount_003 conv \<lparr> req_amount = Str ''abc'', req_currency = c \<rparr>"
  using assms by (simp add: invalid_amount_003_def)

text \<open>
  C5.  The claim: a creation request whose upper-cased currency is neither USD nor KHR
  fails and creates no order.  In \<^verbatim>\<open>server.js\<close> the currency is not checked against
  USD and KHR: whatever string it is, the request succeeds when the rest of it does, the
  order is stored with the upper-cased string as its currency, and the codec is told USD
  unless the string is KHR.
\<close>

theorem create_khqr_accepts_any_currency:
  assumes "\<not> invalid_amount conv req" and "\<not> misconfigured_merchant cfg"
    and "currency_code cfg w req = Some cur"
    and "\<And>info. generateIndividual info = Returns result" and "codec_ok result"
    and "toDataURL (get_prop (get_prop result ''data'') ''qr'') = Returns qrImage"
  shows "http_status (cr_response (create_khqr conv generateIndividual toDataURL cfg w ORDERS req))
           = 200
       \<and> map_option currency
           (cr_ORDERS (create_khqr conv generateIndividual toDataURL cfg w ORDERS req)
              (generateOrderId w)) = Some cur
       \<and> map encoded_currency
           (cr_encoded (create_khqr conv generateIndividual toDataURL cfg w ORDERS req))
           = [[if cur = ''KHR'' then khr else usd]]"
  using create_khqr_success[of conv req cfg w cur generateIndividual result toDataURL qrImage ORDERS]
    assms
  by (simp add: Let_def json_def encoded_currency_def)

theorem create_khqr_accepts_any_currency_witness:
  "\<not> invalid_amount no_conv \<lparr> req_amount = Num (Fin 5), req_currency = Str ''eur'' \<rparr>
   \<and> currency_code example_config example_world \<lparr> req_amount = Num (Fin 5), req_currency = Str ''eur'' \<rparr>
       = Some ''EUR''
   \<and> http_status (cr_response (create_khqr no_conv example_codec example_rasterizer
        example_config example_world Map.empty
        \<lparr> req_amount = Num (Fin 5), req_currency = Str ''eur'' \<rparr>)) = 200
   \<and> map_option currency (cr_ORDERS (create_khqr no_conv example_codec example_rasterizer
        example_config example_world Map.empty
        \<lparr> req_amount = Num (Fin 5), req_currency = Str ''eur'' \<rparr>) (generateOrderId example_world))
       = Some ''EUR''
   \<and> map encoded_currency (cr_encoded (create_khqr no_conv example_codec example_rasterizer
        example_config example_world Map.empty
        \<lparr> req_amount = Num (Fin 5), req_currency = Str ''eur'' \<rparr>)) = [[usd]]"
proof -
  let ?req = "\<lparr> req_amount = Num (Fin 5), req_currency = Str ''eur'' \<rparr>"
  have amount_ok: "\<not> invalid_amount no_conv ?req"
    by (simp add: invalid_amount_def js_or_def)
  have cur: "currency_code example_config example_world ?req = Some ''EUR''"
    by (simp add: currency_code_def js_or_def toUpperCase_def toUpperCase_char_def)
  from create_khqr_accepts_any_currency[where conv = no_conv and req = ?req
      and cfg = example_config and cur = "''EUR''" and generateIndividual = example_codec
      and toDataURL = example_rasterizer and w = example_world and ORDERS = Map.empty,
      OF amount_ok example_collaborators(1) cur example_collaborators(2,3,4)]
  show ?thesis
    using amount_ok cur by simp
qed

text \<open>
  The variant of \<^verbatim>\<open>src/unnamed/part_003\<close> does what the claim says: a currency code
  other than USD and KHR is answered with status 400, and nothing is stored or encoded.
\<close>

lemma create_khqr_003_rejects_other_currencies:
  assumes "\<not> invalid_amount_003 conv req" and "currency_code cfg w req = Some cur"
    and "cur \<noteq> ''USD''" and "cur \<noteq> ''KHR''"
  shows "create_khqr_003 conv KHQR_generate md5_hex toDataURL cfg w ORDERS req =
           \<lparr> cr_response = json 400 [(''ok'', Bool False),
                                      (''error'', Str ''Currency must be USD or KHR'')],
             cr_ORDERS = ORDERS, cr_encoded = [] \<rparr>"
  using assms
  by (auto simp: invalid_amount_003_def currency_code_def create_khqr_003_def Let_def
           split: jsval.splits)

text \<open>
  C6.  The claim: a fractional amount in KHR is stored and encoded rounded to the nearest
  whole number.  In \<^verbatim>\<open>server.js\<close> the amount of a creation request is stored, answered
  and given to the codec as the number it is, in every currency: a KHR amount is not
  rounded.
\<close>

theorem create_khqr_keeps_fractional_amount:
  assumes "\<not> invalid_amount conv req" and "\<not> misconfigured_merchant cfg"
    and "currency_code cfg w req = Some cur"
    and "\<And>info. generateIndividual info = Returns result" and "codec_ok result"
    and "toDataURL (get_prop (get_prop result ''data'') ''qr'') = Returns qrImage"
  shows "map_option amount
           (cr_ORDERS (create_khqr conv generateIndividual toDataURL cfg w ORDERS req)
              (generateOrderId w)) = Some (Number conv (req_amount req))
       \<and> map encoded_amount
           (cr_encoded (create_khqr conv generateIndividual toDataURL cfg w ORDERS req))
           = [[Number conv (req_amount req)]]
       \<and> map_of (body (cr_response
             (create_khqr conv generateIndividual toDataURL cfg w ORDERS req))) ''amount''
           = Some (Num (Number conv (req_amount req)))"
  using create_khqr_success[of conv req cfg w cur generateIndividual result toDataURL qrImage ORDERS]
    assms
  by (simp add: Let_def json_def encoded_amount_def)

lemma lit_10_7: "lit (107 / 10) = Fin (3011782250804019 / 281474976710656)"
  by code_simp

theorem create_khqr_keeps_fractional_amount_witness:
  "\<not> invalid_amount no_conv \<lparr> req_amount = Num (lit (107 / 10)), req_currency = Str ''KHR'' \<rparr>
   \<and> currency_code example_config example_world
        \<lparr> req_amount = Num (lit (107 / 10)), req_currency = Str ''KHR'' \<rparr> = Some ''KHR''
   \<and> map_option amount (cr_ORDERS (create_khqr no_conv example_codec example_rasterizer
        example_config example_world Map.empty
        \<lparr> req_amount = Num (lit (107 / 10)), req_currency = Str ''KHR'' \<rparr>)
        (generateOrderId example_world)) = Some (Fin (3011782250804019 / 281474976710656))
   \<and> map encoded_amount (cr_encoded (create_khqr no_conv example_codec example_rasterizer
        example_config example_world Map.empty
        \<lparr> req_amount = Num (lit (107 / 10)), req_currency = Str ''KHR'' \<rparr>))
       = [[Fin (3011782250804019 / 281474976710656)]]
   \<and> Fin (3011782250804019 / 281474976710656) \<noteq> Fin 11"
proof -
  let ?req = "\<lparr> req_amount = Num (lit (107 / 10)), req_currency = Str ''KHR'' \<rparr>"
  have amount_ok: "\<not> invalid_amount no_conv ?req"
    by (simp add: invalid_amount_def js_or_def lit_10_7)
  have cur: "currency_code example_config example_world ?req = Some ''KHR''"
    by (simp add: currency_code_def js_or_def toUpperCase_def toUpperCase_char_def)
  from create_khqr_keeps_fractional_amount[where conv = no_conv and req = ?req
      and cfg = example_config and cur = "''KHR''" and generateIndividual = example_codec
      and toDataURL = example_rasterizer and w = example_world and ORDERS = Map.empty,
      OF amount_ok example_collaborators(1) cur example_collaborators(2,3,4)]
  show ?thesis
    using amount_ok cur by (simp add: lit_10_7)
qed

text \<open>
  The variant of \<^verbatim>\<open>src/unnamed/part_003\<close> does what the claim says: a KHR amount is
  stored and encoded as \<^verbatim>\<open>Math.round\<close> of it, a whole number, and 10.7 becomes 11.
\<close>

lemma create_khqr_003_rounds_KHR:
  assumes "\<not> invalid_amount_003 conv req" and "\<not> misconfigured_merchant cfg"
    and "currency_code cfg w req = Some ''KHR''"
    and "\<And>params. KHQR_generate params = Returns result"
    and "opt_get (opt_get result ''data'') ''qr'' = Str ks" and "ks \<noteq> []"
    and "toDataURL (Str ks) = Returns qrImage"
  shows "map_option amount
           (cr_ORDERS (create_khqr_003 conv KHQR_generate md5_hex toDataURL cfg w ORDERS req)
              (generateOrderId w)) = Some (Math_round (Number conv (req_amount req)))
       \<and> map kp_amount
           (cr_encoded (create_khqr_003 conv KHQR_generate md5_hex toDataURL cfg w ORDERS req))
           = [Math_round (Number conv (req_amount req))]"
proof -
  obtain c where c: "js_or (req_currency req) (Str (DEFAULT_CURRENCY cfg)) = Str c"
    "toUpperCase (unicode_toUpperCase w) c = ''KHR''"
    using assms(3) by (auto simp: currency_code_def split: jsval.splits)
  show ?thesis
    using assms(1,2,4-7) c
    unfolding create_khqr_003_def Let_def
    by (simp add: invalid_amount_003_def misconfigured_merchant_def js_or_def)
qed

lemma Math_round_whole: "\<exists>n. Math_round (Fin a) = Fin (of_int n)"
  by simp

lemma Math_round_10_7: "Math_round (lit (107 / 10)) = Fin 11"
proof -
  have "Math_round (Fin (3011782250804019 / 281474976710656)) = Fin 11"
    by code_simp
  then show ?thesis
    by (simp only: lit_10_7)
qed

text \<open>
  C7.  The claim: a status check of an id that was never stored is answered with 404.  A
  status check of an id that is not stored but is the name of a member of
  \<^verbatim>\<open>Object.prototype\<close> is not: the lookup finds the inherited member.  With no token
  configured the answer is 200 and PENDING; with a token the handler asks the settlement
  service about an undefined fingerprint.
\<close>

theorem check_payment_inherited_key_not_404:
  assumes "ORDERS oid = None" and "oid \<in> set prototype_keys"
  shows "http_status (ck_response (check_payment conv axios_post cfg ORDERS oid)) \<noteq> 404
       \<and> (BAKONG_TOKEN cfg = [] \<longrightarrow>
            ck_response (check_payment conv axios_post cfg ORDERS oid) =
              json 200 [(''ok'', Bool True), (''status'', Str ''PENDING''),
                        (''note'', Str ''BAKONG_TOKEN not set. Payment check is not active yet.'')])
       \<and> (BAKONG_TOKEN cfg \<noteq> [] \<and> BAKONG_TOKEN cfg \<noteq> ''YOUR_BAKONG_API_TOKEN_HERE'' \<longrightarrow>
            map post_md5 (ck_posts (check_payment conv axios_post cfg ORDERS oid)) = [Undefined])"
  using assms
  by (auto simp: check_payment_def lookup_order_def Let_def json_def check_request_def
           split: outcome.splits)

theorem check_payment_inherited_key_not_404_witness:
  "(Map.empty :: ledger) ''constructor'' = None
   \<and> ''constructor'' \<in> set prototype_keys
   \<and> ck_response (check_payment no_conv service_down (example_config\<lparr>BAKONG_TOKEN := []\<rparr>)
        Map.empty ''constructor'')
     = json 200 [(''ok'', Bool True), (''status'', Str ''PENDING''),
                 (''note'', Str ''BAKONG_TOKEN not set. Payment check is not active yet.'')]"
proof -
  have inherited: "''constructor'' \<in> set prototype_keys"
    by (simp add: prototype_keys_def)
  have no_token: "BAKONG_TOKEN (example_config\<lparr>BAKONG_TOKEN := []\<rparr>) = []"
    by simp
  from check_payment_inherited_key_not_404[of Map.empty "''constructor''" no_conv service_down
      "example_config\<lparr>BAKONG_TOKEN := []\<rparr>"] inherited no_token
  show ?thesis by simp
qed

text \<open>
  For every other id that is not stored the answer is 404, and a handler always answers:
  the model is a total function whose \<^verbatim>\<open>catch\<close> branches answer 500.
\<close>

lemma check_payment_unknown_id:
  assumes "ORDERS oid = None" and "oid \<notin> set prototype_keys"
  shows "check_payment conv axios_post cfg ORDERS oid =
           \<lparr> ck_response = json 404 [(''ok'', Bool False), (''error'', Str ''Order not found'')],
             ck_ORDERS = ORDERS, ck_posts = [], ck_builtin_write = False \<rparr>"
  using assms by (simp add: check_payment_def lookup_order_def Let_def)

lemma check_payment_404_only_unknown:
  assumes "http_status (ck_response (check_payment conv axios_post cfg ORDERS oid)) = 404"
  shows "ORDERS oid = None"
  using assms
  by (cases "ORDERS oid")
     (auto simp: check_payment_def Let_def json_def split: outcome.splits if_splits)






text \<open>
  In the variant of \<^verbatim>\<open>src/unnamed/part_003\<close> an amount that is a string and not a number
  passes the tests, and the order is stored with an amount that is not a number.
\<close>

lemma create_khqr_003_stores_non_numeric_amount:
  "http_status (cr_response (create_khqr_003 no_conv example_codec example_md5
      example_rasterizer example_config example_world Map.empty
      \<lparr> req_amount = Str ''abc'', req_currency = Str ''USD'' \<rparr>)) = 200
   \<and> map_option amount (cr_ORDERS (create_khqr_003 no_conv example_codec example_md5
      example_rasterizer example_config example_world Map.empty
      \<lparr> req_amount = Str ''abc'', req_currency = Str ''USD'' \<rparr>) ''CAFE-20250105090307-125'')
     = Some NaN"
  by code_simp


text \<open>
  C10.  A status check, in \<^verbatim>\<open>server.js\<close> and in the variant of
  \<^verbatim>\<open>src/unnamed/part_003\<close>, leaves every stored order with the id, amount, currency,
  fingerprint, encoded payload and creation time it had, whatever the settlement service
  answers; the stored ids are the same before and after.
\<close>

theorem status_check_changes_status_only:
  assumes "ORDERS k = Some ord"
  shows "(\<exists>s. ck_ORDERS (check_payment conv axios_post cfg ORDERS oid) k
               = Some (ord\<lparr>status := s\<rparr>))
       \<and> (\<exists>s. ck_ORDERS (check_payment_003 conv axios_post cfg ORDERS oid) k
               = Some (ord\<lparr>status := s\<rparr>))
       \<and> dom (ck_ORDERS (check_payment conv axios_post cfg ORDERS oid)) = dom ORDERS
       \<and> dom (ck_ORDERS (check_payment_003 conv axios_post cfg ORDERS oid)) = dom ORDERS"
proof -
  have same: "ORDERS k = Some (ord\<lparr>status := status ord\<rparr>)"
    using assms by simp
  have marked: "\<exists>s. (ORDERS(oid \<mapsto> ord'\<lparr>status := PAID\<rparr>)) k = Some (ord\<lparr>status := s\<rparr>)"
    if "ORDERS oid = Some ord'" for ord'
  proof (cases "k = oid")
    case True
    with that assms show ?thesis by (intro exI[of _ PAID]) simp
  next
    case False
    with assms show ?thesis by (intro exI[of _ "status ord"]) simp
  qed
  have dom_marked: "dom (ORDERS(oid \<mapsto> ord'\<lparr>status := PAID\<rparr>)) = dom ORDERS"
    if "ORDERS oid = Some ord'" for ord'
    using that by auto
  show ?thesis
    using check_payment_unchanged_or_marked[of conv axios_post cfg ORDERS oid]
      check_payment_003_unchanged_or_marked[of conv axios_post cfg ORDERS oid]
      same marked dom_marked
    by metis
qed

theorem status_check_changes_status_only_witness:
  "example_ledger (Fin (3 / 2)) ''USD'' PENDING ''CAFE-20250105090307-125''
     = Some (example_order (Fin (3 / 2)) ''USD'' PENDING)
   \<and> ck_ORDERS (check_payment no_conv (settled (Fin (3 / 2)) ''USD'') example_config
        (example_ledger (Fin (3 / 2)) ''USD'' PENDING) ''CAFE-20250105090307-125'') ''CAFE-20250105090307-125''
     = Some (example_order (Fin (3 / 2)) ''USD'' PAID)
   \<and> (\<exists>s. ck_ORDERS (check_payment_003 no_conv (settled (Fin (3 / 2)) ''USD'') example_config
        (example_ledger (Fin (3 / 2)) ''USD'' PENDING) ''CAFE-20250105090307-125'') ''CAFE-20250105090307-125''
     = Some ((example_order (Fin (3 / 2)) ''USD'' PENDING)\<lparr>status := s\<rparr>))"
proof -
  have stored: "example_ledger (Fin (3 / 2)) ''USD'' PENDING ''CAFE-20250105090307-125''
                  = Some (example_order (Fin (3 / 2)) ''USD'' PENDING)"
    by (simp add: example_ledger_def)
  note T = status_check_changes_status_only[of "example_ledger (Fin (3 / 2)) ''USD'' PENDING"
      "''CAFE-20250105090307-125''" "example_order (Fin (3 / 2)) ''USD'' PENDING"
      no_conv "settled (Fin (3 / 2)) ''USD''" example_config "''CAFE-20250105090307-125''"]
  have "ck_ORDERS (check_payment no_conv (settled (Fin (3 / 2)) ''USD'') example_config
          (example_ledger (Fin (3 / 2)) ''USD'' PENDING) ''CAFE-20250105090307-125'') ''CAFE-20250105090307-125''
        = Some (example_order (Fin (3 / 2)) ''USD'' PAID)"
    by code_simp
  with stored T show ?thesis by blast
qed

end
